theory Spec2Isabelle
  imports Main
begin

section \<open>The daemon runner: \<open>daemon.Run\<close>\<close>

text \<open>
  A shallow embedding of \<open>Run\<close> of \<open>daemon/daemon.go\<close>. \<open>Run\<close> starts an optional
  status server, pings the remote server in a retry loop, starts the poller, waits for
  the tasks of an \<open>errgroup.Group\<close> and classifies the group's error.

  The collaborators (\<open>cli.Ping\<close>, \<open>poller.Poll\<close>, \<open>server.ListenAndServe\<close>, the parent
  context) are not part of the file; what they answer in one execution is an input of
  the model (\<open>env\<close>). What \<open>Run\<close> does that another party can observe is recorded as a
  list of events, in the order in which \<open>Run\<close> and its poller task do it.
  \<open>setupLogger\<close> and the construction of the client, engine and poller (lines 38 to 97)
  take no decision of the control flow and are left out.
\<close>

subsection \<open>Errors and configuration\<close>

text \<open>
  A Go \<open>error\<close> is \<open>nil\<close> or an error value. \<open>context.Canceled\<close> is the one value
  \<open>Run\<close> compares against (line 171); every other error is named by its message.
\<close>

datatype error = Canceled | Failure string

type_synonym err = "error option"

text \<open>The fields of \<open>Config\<close> that \<open>Run\<close> branches on or hands to a call that is modelled.\<close>

record Config =
  Server_Port :: string
  Runner_Capacity :: int
  Runner_Name :: string

subsection \<open>Events\<close>

text \<open>The log lines of \<open>Run\<close>, one constructor per \<open>logrus\<close> call.\<close>

datatype logline =
    StartingServer string
  | ServerDisabled
  | CannotPing error
  | PingedOk
  | Polling int
  | PollFailure error
  | ShutdownScheduled
  | ShutdownError error

text \<open>
  \<open>GoServer\<close>: \<open>g.Go\<close> of line 113 (the server task starts). \<open>Ping\<close>: \<open>cli.Ping\<close> of
  line 124. \<open>Sleep d\<close>: \<open>time.Sleep(d)\<close> of line 136, \<open>d\<close> in nanoseconds as in
  \<open>time.Duration\<close>. \<open>GoPoller\<close>: \<open>g.Go\<close> of line 143. \<open>Poll n\<close>: \<open>poller.Poll(ctx, n)\<close>
  of lines 153 and 165. \<open>SetScheduledExit\<close>: the assignment of line 159. \<open>Cancel\<close>: a call
  of the cancel function of \<open>ctx\<close>. \<open>Wait\<close>: \<open>g.Wait()\<close> of line 169 has returned.
\<close>

datatype event =
    GoServer
  | Ping string
  | Sleep nat
  | GoPoller
  | Poll int
  | SetScheduledExit
  | Cancel
  | Wait
  | Log logline

definition Second :: nat where
  "Second = 1000000000"

subsection \<open>State\<close>

text \<open>
  \<open>errgroup.Group\<close> (golang.org/x/sync) holds a cancel function, which is \<open>nil\<close> unless
  the group was made by \<open>errgroup.WithContext\<close>, and the first error a task returned.
  Line 99 declares the zero value: \<open>g_cancel\<close> is \<open>False\<close> and \<open>g_err\<close> is \<open>nil\<close>.
\<close>

record Group =
  g_cancel :: bool
  g_err :: err

text \<open>
  The local state of \<open>Run\<close>: the events so far, whether the cancel function of \<open>ctx\<close>
  (\<open>cancelBySingleStageMode\<close>, line 34) has been called, the variable
  \<open>isScheduledExit\<close> (line 36) and the group \<open>g\<close>.
\<close>

record run_state =
  events :: "event list"
  ctx_cancelled :: bool
  isScheduledExit :: bool
  grp :: Group

definition init_state :: run_state where
  "init_state =
     \<lparr>events = [], ctx_cancelled = False, isScheduledExit = False,
      grp = \<lparr>g_cancel = False, g_err = None\<rparr>\<rparr>"

definition emit :: "event \<Rightarrow> run_state \<Rightarrow> run_state" where
  "emit e st = st\<lparr>events := events st @ [e]\<rparr>"

definition cancelBySingleStageMode :: "run_state \<Rightarrow> run_state" where
  "cancelBySingleStageMode st = (emit Cancel st)\<lparr>ctx_cancelled := True\<rparr>"

subsection \<open>What the collaborators answer\<close>

text \<open>
  One iteration of the ping loop reads the outside world three times: the result of
  \<open>cli.Ping\<close>, whether the parent context is done when the \<open>select\<close> of line 125 runs,
  and whether it is done when \<open>ctx.Err()\<close> of line 130 is read. \<open>ctx\<close> is derived from
  the parent by \<open>context.WithCancel\<close>, so \<open>ctx\<close> is done when the parent is or when its
  cancel function has been called.
\<close>

record observation =
  ping_result :: err
  parent_done_select :: bool
  parent_done_err :: bool

text \<open>
  \<open>pings\<close>: the observations of the iterations of the ping loop, in order.
  \<open>serve_result\<close>: what \<open>server.ListenAndServe(ctx)\<close> returns, \<open>None\<close> when it never
  returns. \<open>poll_result\<close>: what \<open>poller.Poll\<close> returns, \<open>None\<close> when it never returns.
  \<open>server_first\<close>: the server task returns before the poller task does.
\<close>

record env =
  pings :: "observation list"
  serve_result :: "err option"
  poll_result :: "err option"
  server_first :: bool

subsection \<open>The ping loop (lines 123 to 141)\<close>

datatype gate_exit = Return_nil | Break

text \<open>
  The loop has no bound. With the observations of finitely many iterations the result is
  \<open>None\<close> when the loop has not ended within them, and otherwise how it ended:
  \<open>Return_nil\<close> is the \<open>return nil\<close> of line 127, \<open>Break\<close> a \<open>break\<close> (line 131 or 139).
\<close>

fun gate :: "Config \<Rightarrow> observation list \<Rightarrow> run_state \<Rightarrow> (gate_exit \<times> run_state) option" where
  "gate cfg [] st = None"
| "gate cfg (ob # obs) st =
     (let st1 = emit (Ping (Runner_Name cfg)) st in
      if parent_done_select ob \<or> ctx_cancelled st1 then Some (Return_nil, st1)
      else if parent_done_err ob \<or> ctx_cancelled st1 then Some (Break, st1)
      else (case ping_result ob of
              Some e \<Rightarrow> gate cfg obs (emit (Sleep Second) (emit (Log (CannotPing e)) st1))
            | None \<Rightarrow> Some (Break, emit (Log PingedOk) st1)))"

subsection \<open>The poller task (lines 143 to 167)\<close>

text \<open>
  The function handed to \<open>g.Go\<close> at line 143. Its argument \<open>poll\<close> is what
  \<open>poller.Poll\<close> returns in this execution; the task returns when \<open>Poll\<close> does.
\<close>

definition poller_task :: "Config \<Rightarrow> err option \<Rightarrow> run_state \<Rightarrow> (err \<times> run_state) option" where
  "poller_task cfg poll st =
     (let st1 = emit (Log (Polling (Runner_Capacity cfg))) st;
          isSingleStageMode = Runner_Capacity cfg < 1
      in if isSingleStageMode then
           (case poll of
              None \<Rightarrow> None
            | Some pollErr \<Rightarrow>
                let st2 = emit (Poll 0) st1;
                    st3 = (case pollErr of
                             Some e \<Rightarrow> emit (Log (PollFailure e)) st2
                           | None \<Rightarrow> emit SetScheduledExit (st2\<lparr>isScheduledExit := True\<rparr>))
                in Some (None, cancelBySingleStageMode st3))
         else
           (case poll of
              None \<Rightarrow> None
            | Some _ \<Rightarrow> Some (None, emit (Poll (Runner_Capacity cfg)) st1)))"

subsection \<open>The error group\<close>

text \<open>
  \<open>task_done r\<close>: a task started by \<open>g.Go\<close> has returned \<open>r\<close>. The group keeps the first
  error that is not \<open>nil\<close> and, when it has a cancel function, calls it then.
  \<open>wait\<close>: \<open>g.Wait()\<close> once every task has returned; it calls the cancel function, when
  there is one, and returns the error kept.
\<close>

definition task_done :: "err \<Rightarrow> run_state \<Rightarrow> run_state" where
  "task_done r st =
     (case r of
        None \<Rightarrow> st
      | Some e \<Rightarrow>
          (case g_err (grp st) of
             Some _ \<Rightarrow> st
           | None \<Rightarrow>
               (let st1 = st\<lparr>grp := (grp st)\<lparr>g_err := Some e\<rparr>\<rparr>
                in if g_cancel (grp st) then cancelBySingleStageMode st1 else st1)))"

definition wait :: "run_state \<Rightarrow> err \<times> run_state" where
  "wait st =
     (let st1 = (if g_cancel (grp st) then cancelBySingleStageMode st else st)
      in (g_err (grp st1), emit Wait st1))"

subsection \<open>The concurrent phase (lines 143 to 169)\<close>

text \<open>
  The server task, when there is one, runs since line 113. \<open>g.Wait()\<close> returns once the
  poller task and the server task have returned, in the order the environment gives.
\<close>

definition concurrent :: "env \<Rightarrow> Config \<Rightarrow> run_state \<Rightarrow> (err \<times> run_state) option" where
  "concurrent env cfg st =
     (if Server_Port cfg \<noteq> ''false'' then
        (case serve_result env of
           None \<Rightarrow> None
         | Some sr \<Rightarrow>
             if server_first env then
               (case poller_task cfg (poll_result env) (task_done sr st) of
                  None \<Rightarrow> None
                | Some (pr, st1) \<Rightarrow> Some (wait (task_done pr st1)))
             else
               (case poller_task cfg (poll_result env) st of
                  None \<Rightarrow> None
                | Some (pr, st1) \<Rightarrow> Some (wait (task_done sr (task_done pr st1)))))
      else
        (case poller_task cfg (poll_result env) st of
           None \<Rightarrow> None
         | Some (pr, st1) \<Rightarrow> Some (wait (task_done pr st1))))"

subsection \<open>\<open>Run\<close>\<close>

text \<open>Lines 99 to 119: the group is declared and the server task started, unless disabled.\<close>

definition start_server :: "Config \<Rightarrow> run_state \<Rightarrow> run_state" where
  "start_server cfg st =
     (if Server_Port cfg \<noteq> ''false''
      then emit GoServer (emit (Log (StartingServer (Server_Port cfg))) st)
      else emit (Log ServerDisabled) st)"

text \<open>Lines 171 to 180: what \<open>Run\<close> returns for the error \<open>g.Wait()\<close> gave.\<close>

definition shutdown :: "err \<Rightarrow> run_state \<Rightarrow> err \<times> run_state" where
  "shutdown err st =
     (if err \<noteq> None \<and> err = Some Canceled \<and> isScheduledExit st
      then (None, emit (Log ShutdownScheduled) st)
      else (err, (case err of
                    Some e \<Rightarrow> emit (Log (ShutdownError e)) st
                  | None \<Rightarrow> st)))"

text \<open>
  \<open>Run_body\<close> is \<open>Run\<close> up to its \<open>return\<close> statement: the value returned and the state
  there; \<open>None\<close> when \<open>Run\<close> does not return. \<open>Run\<close> adds the deferred call of line 35.
\<close>

definition Run_body :: "env \<Rightarrow> Config \<Rightarrow> (err \<times> run_state) option" where
  "Run_body env cfg =
     (case gate cfg (pings env) (start_server cfg init_state) of
        None \<Rightarrow> None
      | Some (Return_nil, st1) \<Rightarrow> Some (None, st1)
      | Some (Break, st1) \<Rightarrow>
          (case concurrent env cfg (emit GoPoller st1) of
             None \<Rightarrow> None
           | Some (err, st2) \<Rightarrow> Some (shutdown err st2)))"

definition Run :: "env \<Rightarrow> Config \<Rightarrow> (err \<times> run_state) option" where
  "Run env cfg =
     (case Run_body env cfg of
        None \<Rightarrow> None
      | Some (r, st) \<Rightarrow> Some (r, cancelBySingleStageMode st))"

subsection \<open>Notions used in the statements\<close>

text \<open>
  An iteration of the ping loop is \<open>failing\<close> when the ping returns an error and the
  parent context is done at neither check. \<open>retry_events\<close> lists what the loop does in
  such iterations; \<open>sleeps\<close> reads the durations slept off a list of events.
\<close>

definition failing :: "observation \<Rightarrow> bool" where
  "failing ob = (ping_result ob \<noteq> None \<and> \<not> parent_done_select ob \<and> \<not> parent_done_err ob)"

fun retry_events :: "string \<Rightarrow> observation list \<Rightarrow> event list" where
  "retry_events n [] = []"
| "retry_events n (ob # obs) =
     Ping n # (case ping_result ob of
                 Some e \<Rightarrow> [Log (CannotPing e), Sleep Second]
               | None \<Rightarrow> []) @ retry_events n obs"

fun sleeps :: "event list \<Rightarrow> nat list" where
  "sleeps [] = []"
| "sleeps (Sleep d # es) = d # sleeps es"
| "sleeps (e # es) = sleeps es"

text \<open>
  \<open>loop_event\<close>: the events of the ping loop. \<open>start_events\<close>: the events of lines 99 to
  119. \<open>poller_events\<close>: the events of the poller task when \<open>poller.Poll\<close> returns \<open>pe\<close>.
  \<open>joined\<close>: the state in which \<open>g.Wait()\<close> returns \<open>sr\<close>, from the state \<open>st\<close> in which
  the poller task was started.
\<close>

fun loop_event :: "event \<Rightarrow> bool" where
  "loop_event (Ping n) = True"
| "loop_event (Sleep d) = True"
| "loop_event (Log (CannotPing e)) = True"
| "loop_event (Log PingedOk) = True"
| "loop_event e = False"

definition start_events :: "Config \<Rightarrow> event list" where
  "start_events cfg =
     (if Server_Port cfg \<noteq> ''false''
      then [Log (StartingServer (Server_Port cfg)), GoServer]
      else [Log ServerDisabled])"

definition poller_events :: "Config \<Rightarrow> err \<Rightarrow> event list" where
  "poller_events cfg pe =
     (if Runner_Capacity cfg < 1
      then [Log (Polling (Runner_Capacity cfg)), Poll 0] @
           (case pe of None \<Rightarrow> [SetScheduledExit] | Some e \<Rightarrow> [Log (PollFailure e)]) @
           [Cancel]
      else [Log (Polling (Runner_Capacity cfg)), Poll (Runner_Capacity cfg)])"

definition joined :: "Config \<Rightarrow> err \<Rightarrow> err \<Rightarrow> run_state \<Rightarrow> run_state" where
  "joined cfg pe sr st =
     st\<lparr>events := events st @ poller_events cfg pe @ [Wait],
        ctx_cancelled := (ctx_cancelled st \<or> Runner_Capacity cfg < 1),
        isScheduledExit := (isScheduledExit st \<or> (Runner_Capacity cfg < 1 \<and> pe = None)),
        grp := \<lparr>g_cancel = False, g_err = sr\<rparr>\<rparr>"

text \<open>\<open>before_first_ping a es\<close>: the event \<open>a\<close> occurs in \<open>es\<close> before the first ping.\<close>

fun before_first_ping :: "event \<Rightarrow> event list \<Rightarrow> bool" where
  "before_first_ping a [] = False"
| "before_first_ping a (Ping n # es) = False"
| "before_first_ping a (e # es) = (e = a \<or> before_first_ping a es)"

subsection \<open>Example inputs\<close>

definition ping_ok :: observation where
  "ping_ok = \<lparr>ping_result = None, parent_done_select = False, parent_done_err = False\<rparr>"

definition ping_down :: observation where
  "ping_down =
     \<lparr>ping_result = Some (Failure ''connection refused''),
      parent_done_select = False, parent_done_err = False\<rparr>"

definition cfg_single :: Config where
  "cfg_single = \<lparr>Server_Port = '':3000'', Runner_Capacity = 0, Runner_Name = ''runner''\<rparr>"

definition cfg_continuous :: Config where
  "cfg_continuous = \<lparr>Server_Port = '':3000'', Runner_Capacity = 2, Runner_Name = ''runner''\<rparr>"

definition cfg_no_server :: Config where
  "cfg_no_server = \<lparr>Server_Port = ''false'', Runner_Capacity = 1, Runner_Name = ''runner''\<rparr>"

text \<open>
  \<open>env_poll_fails\<close>: the first ping succeeds and \<open>poller.Poll\<close> returns an error; the
  server task, when there is one, returns \<open>context.Canceled\<close> once the context is done.
  \<open>env_poll_ok\<close>: the same with \<open>Poll\<close> returning \<open>nil\<close>.
\<close>

definition env_poll_fails :: env where
  "env_poll_fails =
     \<lparr>pings = [ping_ok], serve_result = Some (Some Canceled),
      poll_result = Some (Some (Failure ''boom'')), server_first = False\<rparr>"

definition env_poll_ok :: env where
  "env_poll_ok =
     \<lparr>pings = [ping_down, ping_ok], serve_result = Some (Some Canceled),
      poll_result = Some None, server_first = False\<rparr>"

text \<open>
  \<open>ping_cancelled\<close>: the ping fails and the parent context is done when the \<open>select\<close>
  runs. \<open>ping_cancelled_late\<close>: the ping fails and the parent context becomes done
  between the \<open>select\<close> of line 125 and the \<open>ctx.Err()\<close> of line 130.
\<close>

definition ping_cancelled :: observation where
  "ping_cancelled =
     \<lparr>ping_result = Some Canceled, parent_done_select = True, parent_done_err = True\<rparr>"

definition ping_cancelled_late :: observation where
  "ping_cancelled_late =
     \<lparr>ping_result = Some (Failure ''connection refused''),
      parent_done_select = False, parent_done_err = True\<rparr>"

definition env_cancelled :: env where
  "env_cancelled =
     \<lparr>pings = [ping_down, ping_cancelled], serve_result = None,
      poll_result = None, server_first = False\<rparr>"

definition env_cancelled_late :: env where
  "env_cancelled_late =
     \<lparr>pings = [ping_cancelled_late], serve_result = Some (Some Canceled),
      poll_result = Some None, server_first = False\<rparr>"

text \<open>
  \<open>env_server_fails\<close>: the server task fails at once (the port is taken) and
  \<open>poller.Poll\<close> never returns.
\<close>

definition env_server_fails :: env where
  "env_server_fails =
     \<lparr>pings = [ping_ok], serve_result = Some (Some (Failure ''address already in use'')),
      poll_result = None, server_first = True\<rparr>"

text \<open>
  \<open>env_server_error\<close>: the server task returns an error of its own while the poller
  task runs, and \<open>poller.Poll\<close> returns \<open>nil\<close> later.
\<close>

definition env_server_error :: env where
  "env_server_error =
     \<lparr>pings = [ping_ok], serve_result = Some (Some (Failure ''address already in use'')),
      poll_result = Some None, server_first = True\<rparr>"

section \<open>Facts about the model\<close>

lemmas state_defs = emit_def cancelBySingleStageMode_def init_state_def

subsection \<open>The ping loop over failing iterations\<close>

lemma gate_retry:
  "list_all failing pre \<Longrightarrow> \<not> ctx_cancelled st \<Longrightarrow>
     gate cfg (pre @ obs) st =
     gate cfg obs (st\<lparr>events := events st @ retry_events (Runner_Name cfg) pre\<rparr>)"
proof (induction pre arbitrary: st)
  case Nil
  then show ?case by simp
next
  case (Cons ob pre)
  from Cons.prems have ob: "failing ob" and rest: "list_all failing pre"
    by simp_all
  from ob obtain e where e: "ping_result ob = Some e"
    and nd: "\<not> parent_done_select ob" "\<not> parent_done_err ob"
    by (auto simp: failing_def)
  let ?st = "emit (Sleep Second) (emit (Log (CannotPing e)) (emit (Ping (Runner_Name cfg)) st))"
  have step: "gate cfg ((ob # pre) @ obs) st = gate cfg (pre @ obs) ?st"
    using e nd Cons.prems(2) by (simp add: emit_def)
  have "\<not> ctx_cancelled ?st"
    using Cons.prems(2) by (simp add: emit_def)
  from Cons.IH [OF rest this] step e show ?case
    by (simp add: emit_def)
qed

lemma sleeps_retry_events:
  "list_all failing pre \<Longrightarrow> sleeps (retry_events n pre) = replicate (length pre) Second"
  by (induction pre) (auto simp: failing_def)

subsection \<open>How the ping loop ends\<close>

lemma gate_Return_nil:
  "list_all failing pre \<Longrightarrow> \<not> ctx_cancelled st \<Longrightarrow> parent_done_select ob \<Longrightarrow>
     gate cfg (pre @ ob # rest) st =
     Some (Return_nil,
       st\<lparr>events := events st @ retry_events (Runner_Name cfg) pre @ [Ping (Runner_Name cfg)]\<rparr>)"
  by (simp add: gate_retry emit_def)

lemma gate_Break_err:
  "list_all failing pre \<Longrightarrow> \<not> ctx_cancelled st \<Longrightarrow>
   \<not> parent_done_select ob \<Longrightarrow> parent_done_err ob \<Longrightarrow>
     gate cfg (pre @ ob # rest) st =
     Some (Break,
       st\<lparr>events := events st @ retry_events (Runner_Name cfg) pre @ [Ping (Runner_Name cfg)]\<rparr>)"
  by (simp add: gate_retry emit_def)

lemma gate_result:
  "gate cfg obs st = Some (x, st') \<Longrightarrow>
     \<exists>evs. st' = st\<lparr>events := events st @ Ping (Runner_Name cfg) # evs\<rparr> \<and>
           list_all loop_event evs"
proof (induction obs arbitrary: st)
  case Nil
  then show ?case by simp
next
  case (Cons ob obs)
  let ?st1 = "emit (Ping (Runner_Name cfg)) st"
  show ?case
  proof (cases "parent_done_select ob \<or> ctx_cancelled st \<or> parent_done_err ob")
    case True
    with Cons.prems have "st' = ?st1"
      by (auto simp: emit_def Let_def split: if_splits)
    then show ?thesis
      by (auto simp: emit_def intro: exI [of _ "[]"])
  next
    case False
    show ?thesis
    proof (cases "ping_result ob")
      case None
      with False Cons.prems have "st' = emit (Log PingedOk) ?st1"
        by (auto simp: emit_def Let_def)
      then show ?thesis
        by (auto simp: emit_def intro: exI [of _ "[Log PingedOk]"])
    next
      case (Some e)
      let ?st2 = "emit (Sleep Second) (emit (Log (CannotPing e)) ?st1)"
      from Some False Cons.prems have "gate cfg obs ?st2 = Some (x, st')"
        by (auto simp: emit_def Let_def)
      from Cons.IH [OF this] obtain evs
        where st': "st' = ?st2\<lparr>events := events ?st2 @ Ping (Runner_Name cfg) # evs\<rparr>"
          and evs: "list_all loop_event evs"
        by blast
      let ?evs = "[Log (CannotPing e), Sleep Second] @ Ping (Runner_Name cfg) # evs"
      from st' have "st' = st\<lparr>events := events st @ Ping (Runner_Name cfg) # ?evs\<rparr>"
        by (simp add: emit_def)
      moreover from evs have "list_all loop_event ?evs"
        by simp
      ultimately show ?thesis
        by blast
    qed
  qed
qed

subsection \<open>The concurrent phase on the group of \<open>Run\<close>\<close>

lemma start_server_eq:
  "start_server cfg init_state = init_state\<lparr>events := start_events cfg\<rparr>"
  by (simp add: start_server_def start_events_def state_defs)

lemma poller_task_Some:
  "poller_task cfg (Some pe) st =
     Some (None,
       st\<lparr>events := events st @ poller_events cfg pe,
          ctx_cancelled := (ctx_cancelled st \<or> Runner_Capacity cfg < 1),
          isScheduledExit := (isScheduledExit st \<or> (Runner_Capacity cfg < 1 \<and> pe = None))\<rparr>)"
  by (cases pe) (simp_all add: poller_task_def poller_events_def state_defs)

lemma poller_task_None: "poller_task cfg None st = None"
  by (simp add: poller_task_def Let_def)

lemma task_done_nil: "task_done None st = st"
  by (simp add: task_done_def)

lemma task_done_zero_group:
  "grp st = \<lparr>g_cancel = False, g_err = None\<rparr> \<Longrightarrow>
     task_done sr st = st\<lparr>grp := \<lparr>g_cancel = False, g_err = sr\<rparr>\<rparr>"
  by (cases sr) (simp_all add: task_done_def)

lemma wait_no_cancel:
  "g_cancel (grp st) = False \<Longrightarrow> wait st = (g_err (grp st), emit Wait st)"
  by (simp add: wait_def)

lemma concurrent_zero_group:
  assumes zero: "grp st = \<lparr>g_cancel = False, g_err = None\<rparr>"
  shows "concurrent env cfg st =
       (case poll_result env of
          None \<Rightarrow> None
        | Some pe \<Rightarrow>
            if Server_Port cfg \<noteq> ''false'' then
              (case serve_result env of
                 None \<Rightarrow> None
               | Some sr \<Rightarrow> Some (sr, joined cfg pe sr st))
            else Some (None, joined cfg pe None st))"
proof (cases "poll_result env")
  case None
  then show ?thesis
    by (simp add: concurrent_def poller_task_None split: option.splits)
next
  case (Some pe)
  show ?thesis
  proof (cases "Server_Port cfg \<noteq> ''false''")
    case False
    with Some zero show ?thesis
      by (simp add: concurrent_def poller_task_Some task_done_nil wait_no_cancel
          joined_def emit_def)
  next
    case True
    show ?thesis
    proof (cases "serve_result env")
      case None
      with True Some show ?thesis
        by (simp add: concurrent_def)
    next
      case sr: (Some sr)
      show ?thesis
      proof (cases "server_first env")
        case True
        with \<open>Server_Port cfg \<noteq> ''false''\<close> Some sr zero show ?thesis
          by (simp add: concurrent_def poller_task_Some task_done_nil task_done_zero_group
              wait_no_cancel joined_def emit_def)
      next
        case False
        with \<open>Server_Port cfg \<noteq> ''false''\<close> Some sr zero show ?thesis
          by (simp add: concurrent_def poller_task_Some task_done_nil task_done_zero_group
              wait_no_cancel joined_def emit_def)
      qed
    qed
  qed
qed

subsection \<open>\<open>Run\<close> in terms of how the ping loop ends\<close>

lemma shutdown_fst:
  "fst (shutdown err st) = (if err = Some Canceled \<and> isScheduledExit st then None else err)"
  by (auto simp: shutdown_def)

lemma shutdown_snd:
  "snd (shutdown err st) =
     st\<lparr>events := events st @
        (if err = Some Canceled \<and> isScheduledExit st then [Log ShutdownScheduled]
         else case err of None \<Rightarrow> [] | Some e \<Rightarrow> [Log (ShutdownError e)])\<rparr>"
  by (cases err) (auto simp: shutdown_def emit_def)

lemma Run_body_Return_nil:
  "gate cfg (pings env) (init_state\<lparr>events := start_events cfg\<rparr>) = Some (Return_nil, st1) \<Longrightarrow>
     Run_body env cfg = Some (None, st1)"
  by (simp add: Run_body_def start_server_eq)

lemma Run_body_Break:
  assumes "gate cfg (pings env) (init_state\<lparr>events := start_events cfg\<rparr>) = Some (Break, st1)"
  shows "Run_body env cfg =
       (case poll_result env of
          None \<Rightarrow> None
        | Some pe \<Rightarrow>
            if Server_Port cfg \<noteq> ''false'' then
              (case serve_result env of
                 None \<Rightarrow> None
               | Some sr \<Rightarrow> Some (shutdown sr (joined cfg pe sr (emit GoPoller st1))))
            else Some (shutdown None (joined cfg pe None (emit GoPoller st1))))"
proof -
  from gate_result [OF assms] have "grp st1 = grp init_state"
    by auto
  then have "grp (emit GoPoller st1) = \<lparr>g_cancel = False, g_err = None\<rparr>"
    by (simp add: state_defs)
  from concurrent_zero_group [OF this, of env cfg] assms show ?thesis
    by (simp add: Run_body_def start_server_eq split: option.splits)
qed

lemma Run_eq:
  "Run env cfg = Some (r, st) \<longleftrightarrow>
     (\<exists>st0. Run_body env cfg = Some (r, st0) \<and> st = cancelBySingleStageMode st0)"
  by (auto simp: Run_def split: option.splits)

text \<open>The two ways in which \<open>Run\<close> returns.\<close>

lemma Run_body_cases:
  assumes "Run_body env cfg = Some (r, st)"
  obtains (cancelled) evs where
      "r = None"
      "st = init_state\<lparr>events := start_events cfg @ Ping (Runner_Name cfg) # evs\<rparr>"
      "list_all loop_event evs"
  | (joined) evs pe sr where
      "poll_result env = Some pe"
      "if Server_Port cfg \<noteq> ''false'' then serve_result env = Some sr else sr = None"
      "list_all loop_event evs"
      "(r, st) = shutdown sr (joined cfg pe sr
         (init_state\<lparr>events := start_events cfg @ Ping (Runner_Name cfg) # evs @ [GoPoller]\<rparr>))"
proof (cases "gate cfg (pings env) (init_state\<lparr>events := start_events cfg\<rparr>)")
  case None
  with assms show ?thesis
    by (simp add: Run_body_def start_server_eq)
next
  case (Some res)
  obtain x st1 where res: "res = (x, st1)"
    by (cases res)
  from gate_result [OF Some [unfolded res]] obtain evs
    where st1: "st1 = init_state\<lparr>events := start_events cfg @ Ping (Runner_Name cfg) # evs\<rparr>"
      and evs: "list_all loop_event evs"
    by auto
  show ?thesis
  proof (cases x)
    case Return_nil
    with Some res assms have "r = None" "st = st1"
      by (simp_all add: Run_body_Return_nil)
    with st1 evs show ?thesis
      by (intro cancelled) simp_all
  next
    case Break
    note eq = Run_body_Break [OF Some [unfolded res Break]]
    from assms eq obtain pe where pe: "poll_result env = Some pe"
      by (cases "poll_result env") simp_all
    have go: "emit GoPoller st1 =
        init_state\<lparr>events := start_events cfg @ Ping (Runner_Name cfg) # evs @ [GoPoller]\<rparr>"
      using st1 by (simp add: emit_def)
    show ?thesis
    proof (cases "Server_Port cfg \<noteq> ''false''")
      case False
      with assms eq pe go have "(r, st) = shutdown None (joined cfg pe None
         (init_state\<lparr>events := start_events cfg @ Ping (Runner_Name cfg) # evs @ [GoPoller]\<rparr>))"
        by simp
      with pe False evs show ?thesis
        by (intro joined [of pe None evs]) simp_all
    next
      case True
      with assms eq pe obtain sr where sr: "serve_result env = Some sr"
        by (cases "serve_result env") simp_all
      with True assms eq pe go have "(r, st) = shutdown sr (joined cfg pe sr
         (init_state\<lparr>events := start_events cfg @ Ping (Runner_Name cfg) # evs @ [GoPoller]\<rparr>))"
        by simp
      with pe True sr evs show ?thesis
        by (intro joined [of pe sr evs]) simp_all
    qed
  qed
qed

lemma Run_cases:
  assumes "Run env cfg = Some (r, st)"
  obtains (cancelled) evs where
      "r = None"
      "events st = start_events cfg @ Ping (Runner_Name cfg) # evs @ [Cancel]"
      "list_all loop_event evs"
      "g_err (grp st) = None"
      "\<not> isScheduledExit st"
  | (joined) evs pe sr where
      "poll_result env = Some pe"
      "if Server_Port cfg \<noteq> ''false'' then serve_result env = Some sr else sr = None"
      "list_all loop_event evs"
      "r = (if sr = Some Canceled \<and> Runner_Capacity cfg < 1 \<and> pe = None then None else sr)"
      "events st =
         start_events cfg @ Ping (Runner_Name cfg) # evs @ GoPoller # poller_events cfg pe @
         Wait #
         (if sr = Some Canceled \<and> Runner_Capacity cfg < 1 \<and> pe = None
          then [Log ShutdownScheduled]
          else case sr of None \<Rightarrow> [] | Some e \<Rightarrow> [Log (ShutdownError e)]) @ [Cancel]"
      "isScheduledExit st = (Runner_Capacity cfg < 1 \<and> pe = None)"
      "g_err (grp st) = sr"
proof -
  from assms obtain st0 where body: "Run_body env cfg = Some (r, st0)"
    and st: "st = cancelBySingleStageMode st0"
    by (auto simp: Run_eq)
  from body show ?thesis
  proof (cases rule: Run_body_cases)
    case (cancelled evs)
    with st show ?thesis
      by (intro that(1) [of evs]) (simp_all add: state_defs)
  next
    case (joined evs pe sr)
    let ?J = "joined cfg pe sr
      (init_state\<lparr>events := start_events cfg @ Ping (Runner_Name cfg) # evs @ [GoPoller]\<rparr>)"
    have flag: "isScheduledExit ?J = (Runner_Capacity cfg < 1 \<and> pe = None)"
      by (simp add: joined_def init_state_def)
    from joined(4) have r: "r = fst (shutdown sr ?J)" and st0: "st0 = snd (shutdown sr ?J)"
      by (simp_all add: prod_eq_iff)
    from r flag
    have 1: "r = (if sr = Some Canceled \<and> Runner_Capacity cfg < 1 \<and> pe = None then None else sr)"
      by (simp add: shutdown_fst)
    from st st0 flag have 2: "events st =
         start_events cfg @ Ping (Runner_Name cfg) # evs @ GoPoller # poller_events cfg pe @
         Wait #
         (if sr = Some Canceled \<and> Runner_Capacity cfg < 1 \<and> pe = None
          then [Log ShutdownScheduled]
          else case sr of None \<Rightarrow> [] | Some e \<Rightarrow> [Log (ShutdownError e)]) @ [Cancel]"
      by (simp add: shutdown_snd) (simp add: joined_def state_defs)
    from st st0 flag have 3: "isScheduledExit st = (Runner_Capacity cfg < 1 \<and> pe = None)"
      by (simp add: shutdown_snd) (simp add: joined_def state_defs)
    from st st0 have 4: "g_err (grp st) = sr"
      by (simp add: shutdown_snd) (simp add: joined_def state_defs)
    from joined(1,2,3) 1 2 3 4 show ?thesis
      by (rule that(2))
  qed
qed

lemma loop_event_set:
  "list_all loop_event evs \<Longrightarrow>
     GoServer \<notin> set evs \<and> GoPoller \<notin> set evs \<and> Wait \<notin> set evs \<and> Cancel \<notin> set evs \<and>
     SetScheduledExit \<notin> set evs \<and> Poll k \<notin> set evs \<and> Log (PollFailure e) \<notin> set evs \<and>
     Log ShutdownScheduled \<notin> set evs \<and> Log (ShutdownError e) \<notin> set evs"
  by (auto simp: list_all_iff)

lemma start_events_set:
  "GoPoller \<notin> set (start_events cfg) \<and> Wait \<notin> set (start_events cfg) \<and>
   Cancel \<notin> set (start_events cfg) \<and> Ping n \<notin> set (start_events cfg) \<and>
   Poll k \<notin> set (start_events cfg) \<and>
   (GoServer \<in> set (start_events cfg) \<longleftrightarrow> Server_Port cfg \<noteq> ''false'')"
  by (simp add: start_events_def)

lemma retry_events_loop: "list_all loop_event (retry_events n pre)"
  by (induction pre) (simp_all split: option.splits)

lemma Run_Return_nil:
  assumes "list_all failing pre" and "parent_done_select ob" and "pings env = pre @ ob # rest"
  shows "Run env cfg =
     Some (None,
       init_state\<lparr>events := start_events cfg @ retry_events (Runner_Name cfg) pre @
                    [Ping (Runner_Name cfg), Cancel],
                  ctx_cancelled := True\<rparr>)"
proof -
  have "\<not> ctx_cancelled (init_state\<lparr>events := start_events cfg\<rparr>)"
    by (simp add: init_state_def)
  from gate_Return_nil [OF assms(1) this assms(2), of cfg rest] assms(3)
  have "Run_body env cfg =
      Some (None, init_state\<lparr>events := start_events cfg @ retry_events (Runner_Name cfg) pre @
        [Ping (Runner_Name cfg)]\<rparr>)"
    by (simp add: Run_body_Return_nil)
  then show ?thesis
    by (simp add: Run_def state_defs)
qed

lemma Run_Break_err:
  assumes "list_all failing pre" and "\<not> parent_done_select ob" and "parent_done_err ob"
    and "pings env = pre @ ob # rest"
  shows "Run_body env cfg =
       (case poll_result env of
          None \<Rightarrow> None
        | Some pe \<Rightarrow>
            if Server_Port cfg \<noteq> ''false'' then
              (case serve_result env of
                 None \<Rightarrow> None
               | Some sr \<Rightarrow> Some (shutdown sr (joined cfg pe sr
                   (init_state\<lparr>events := start_events cfg @ retry_events (Runner_Name cfg) pre @
                      [Ping (Runner_Name cfg), GoPoller]\<rparr>))))
            else Some (shutdown None (joined cfg pe None
                   (init_state\<lparr>events := start_events cfg @ retry_events (Runner_Name cfg) pre @
                      [Ping (Runner_Name cfg), GoPoller]\<rparr>))))"
proof -
  have "\<not> ctx_cancelled (init_state\<lparr>events := start_events cfg\<rparr>)"
    by (simp add: init_state_def)
  from gate_Break_err [OF assms(1) this assms(2,3), of cfg rest] assms(4)
  have "gate cfg (pings env) (init_state\<lparr>events := start_events cfg\<rparr>) =
      Some (Break, init_state\<lparr>events := start_events cfg @ retry_events (Runner_Name cfg) pre @
        [Ping (Runner_Name cfg)]\<rparr>)"
    by simp
  from Run_body_Break [OF this] show ?thesis
    by (simp add: emit_def split: option.splits)
qed

lemma events_shutdown_joined:
  "events (snd (shutdown sr (joined cfg pe sr st))) =
     events st @ poller_events cfg pe @ Wait #
       (if sr = Some Canceled \<and> isScheduledExit (joined cfg pe sr st) then [Log ShutdownScheduled]
        else case sr of None \<Rightarrow> [] | Some e \<Rightarrow> [Log (ShutdownError e)])"
  by (simp add: shutdown_snd) (simp add: joined_def)

subsection \<open>The iteration in which the ping loop ends\<close>

lemma sleeps_append: "sleeps (xs @ ys) = sleeps xs @ sleeps ys"
  by (induction xs rule: sleeps.induct) simp_all

lemma gate_end:
  assumes pre: "list_all failing pre" and ob: "\<not> failing ob" and st: "\<not> ctx_cancelled st"
  shows "gate cfg (pre @ ob # rest) st =
     Some (if parent_done_select ob then Return_nil else Break,
       st\<lparr>events := events st @ retry_events (Runner_Name cfg) pre @
          Ping (Runner_Name cfg) #
          (if parent_done_select ob \<or> parent_done_err ob then [] else [Log PingedOk])\<rparr>)"
proof -
  from ob have "parent_done_select ob \<or> parent_done_err ob \<or> ping_result ob = None"
    by (auto simp: failing_def)
  with st show ?thesis
    by (auto simp: gate_retry [OF pre st] emit_def)
qed

lemma gate_ends:
  "gate cfg obs st = Some (x, st') \<Longrightarrow> \<not> ctx_cancelled st \<Longrightarrow>
     \<exists>pre ob rest. obs = pre @ ob # rest \<and> list_all failing pre \<and> \<not> failing ob"
proof (induction obs arbitrary: st)
  case Nil
  then show ?case by simp
next
  case (Cons ob obs)
  show ?case
  proof (cases "failing ob")
    case False
    then have "ob # obs = [] @ ob # obs \<and> list_all failing [] \<and> \<not> failing ob"
      by simp
    then show ?thesis
      by blast
  next
    case True
    then obtain e where e: "ping_result ob = Some e"
      and nd: "\<not> parent_done_select ob" "\<not> parent_done_err ob"
      by (auto simp: failing_def)
    let ?st2 = "emit (Sleep Second) (emit (Log (CannotPing e))
      (emit (Ping (Runner_Name cfg)) st))"
    from e nd Cons.prems have "gate cfg obs ?st2 = Some (x, st')"
      by (simp add: emit_def Let_def)
    moreover from Cons.prems(2) have "\<not> ctx_cancelled ?st2"
      by (simp add: emit_def)
    ultimately obtain pre ob' rest
      where "obs = pre @ ob' # rest" "list_all failing pre" "\<not> failing ob'"
      using Cons.IH by blast
    with True have "ob # obs = (ob # pre) @ ob' # rest \<and> list_all failing (ob # pre) \<and>
        \<not> failing ob'"
      by simp
    then show ?thesis
      by blast
  qed
qed

text \<open>
  The two ways in which \<open>Run\<close> returns, with the observations of the loop: the loop
  ends in the first iteration that is not failing.
\<close>

lemma Run_gate_cases:
  assumes run: "Run env cfg = Some (r, st)"
  obtains (cancelled) pre ob rest where
      "pings env = pre @ ob # rest" "list_all failing pre" "parent_done_select ob"
      "r = None"
      "events st = start_events cfg @ retry_events (Runner_Name cfg) pre @
         [Ping (Runner_Name cfg), Cancel]"
  | (joined) pre ob rest pe sr where
      "pings env = pre @ ob # rest" "list_all failing pre" "\<not> parent_done_select ob"
      "parent_done_err ob \<or> ping_result ob = None"
      "poll_result env = Some pe"
      "if Server_Port cfg \<noteq> ''false'' then serve_result env = Some sr else sr = None"
      "events st =
         start_events cfg @ retry_events (Runner_Name cfg) pre @ Ping (Runner_Name cfg) #
         (if parent_done_err ob then [] else [Log PingedOk]) @
         GoPoller # poller_events cfg pe @ Wait #
         (if sr = Some Canceled \<and> Runner_Capacity cfg < 1 \<and> pe = None
          then [Log ShutdownScheduled]
          else case sr of None \<Rightarrow> [] | Some e \<Rightarrow> [Log (ShutdownError e)]) @ [Cancel]"
      "g_err (grp st) = sr"
      "isScheduledExit st = (Runner_Capacity cfg < 1 \<and> pe = None)"
      "r = (if sr = Some Canceled \<and> Runner_Capacity cfg < 1 \<and> pe = None then None else sr)"
proof -
  let ?S = "init_state\<lparr>events := start_events cfg\<rparr>"
  have S: "\<not> ctx_cancelled ?S"
    by (simp add: init_state_def)
  from run obtain st0 where body: "Run_body env cfg = Some (r, st0)"
    and st: "st = cancelBySingleStageMode st0"
    by (auto simp: Run_eq)
  from body obtain x st1 where "gate cfg (pings env) ?S = Some (x, st1)"
    by (cases "gate cfg (pings env) ?S") (auto simp: Run_body_def start_server_eq)
  from gate_ends [OF this S] obtain pre ob rest
    where pings: "pings env = pre @ ob # rest" and pre: "list_all failing pre"
      and ob: "\<not> failing ob"
    by blast
  show ?thesis
  proof (cases "parent_done_select ob")
    case True
    from Run_Return_nil [OF pre True pings, of cfg] run
    have "r = None" and "events st = start_events cfg @ retry_events (Runner_Name cfg) pre @
         [Ping (Runner_Name cfg), Cancel]"
      by auto
    with pings pre True show ?thesis
      by (rule cancelled)
  next
    case False
    with ob have fin: "parent_done_err ob \<or> ping_result ob = None"
      by (auto simp: failing_def)
    let ?st1 = "?S\<lparr>events := events ?S @ retry_events (Runner_Name cfg) pre @
          Ping (Runner_Name cfg) # (if parent_done_err ob then [] else [Log PingedOk])\<rparr>"
    from gate_end [OF pre ob S, of cfg rest] False pings
    have g: "gate cfg (pings env) ?S = Some (Break, ?st1)"
      by simp
    note eq = Run_body_Break [OF g]
    from body eq obtain pe where pe: "poll_result env = Some pe"
      by (cases "poll_result env") simp_all
    obtain sr where sr: "if Server_Port cfg \<noteq> ''false'' then serve_result env = Some sr
        else sr = None"
      and res: "(r, st0) = shutdown sr (joined cfg pe sr (emit GoPoller ?st1))"
    proof (cases "Server_Port cfg \<noteq> ''false''")
      case False
      with body eq pe have "(r, st0) = shutdown None (joined cfg pe None (emit GoPoller ?st1))"
        by simp
      with False show ?thesis
        by (intro that [of None]) simp_all
    next
      case True
      with body eq pe obtain sr where "serve_result env = Some sr"
        by (cases "serve_result env") simp_all
      with True body eq pe show ?thesis
        by (intro that [of sr]) simp_all
    qed
    let ?J = "joined cfg pe sr (emit GoPoller ?st1)"
    have flag: "isScheduledExit ?J = (Runner_Capacity cfg < 1 \<and> pe = None)"
      by (simp add: joined_def state_defs)
    from res have r: "r = fst (shutdown sr ?J)" and st0: "st0 = snd (shutdown sr ?J)"
      by (simp_all add: prod_eq_iff)
    from r flag
    have 1: "r = (if sr = Some Canceled \<and> Runner_Capacity cfg < 1 \<and> pe = None then None else sr)"
      by (simp add: shutdown_fst)
    from st st0 flag have 2: "events st =
         start_events cfg @ retry_events (Runner_Name cfg) pre @ Ping (Runner_Name cfg) #
         (if parent_done_err ob then [] else [Log PingedOk]) @
         GoPoller # poller_events cfg pe @ Wait #
         (if sr = Some Canceled \<and> Runner_Capacity cfg < 1 \<and> pe = None
          then [Log ShutdownScheduled]
          else case sr of None \<Rightarrow> [] | Some e \<Rightarrow> [Log (ShutdownError e)]) @ [Cancel]"
      by (simp add: shutdown_snd) (simp add: joined_def state_defs)
    from st st0 flag have 3: "isScheduledExit st = (Runner_Capacity cfg < 1 \<and> pe = None)"
      by (simp add: shutdown_snd) (simp add: joined_def state_defs)
    from st st0 have 4: "g_err (grp st) = sr"
      by (simp add: shutdown_snd) (simp add: joined_def state_defs)
    from pings pre False fin pe sr 2 4 3 1 show ?thesis
      by (rule joined)
  qed
qed

lemma Run_body_Break_at:
  assumes pre: "list_all failing pre" and sel: "\<not> parent_done_select ob"
    and fin: "parent_done_err ob \<or> ping_result ob = None"
    and pings: "pings env = pre @ ob # rest"
  shows "Run_body env cfg =
     (case concurrent env cfg
        (init_state\<lparr>events := start_events cfg @ retry_events (Runner_Name cfg) pre @
           Ping (Runner_Name cfg) # (if parent_done_err ob then [] else [Log PingedOk]) @
           [GoPoller]\<rparr>) of
        None \<Rightarrow> None
      | Some (err, st2) \<Rightarrow> Some (shutdown err st2))"
proof -
  let ?S = "init_state\<lparr>events := start_events cfg\<rparr>"
  have S: "\<not> ctx_cancelled ?S"
    by (simp add: init_state_def)
  from sel fin have ob: "\<not> failing ob"
    by (auto simp: failing_def)
  from gate_end [OF pre ob S, of cfg rest] sel pings
  show ?thesis
    by (simp add: Run_body_def start_server_eq emit_def)
qed

lemma Run_unfinished:
  assumes "list_all failing (pings env)"
  shows "Run env cfg = None"
proof -
  have "\<not> ctx_cancelled (init_state\<lparr>events := start_events cfg\<rparr>)"
    by (simp add: init_state_def)
  from gate_retry [OF assms this, of cfg "[]"] show ?thesis
    by (simp add: Run_def Run_body_def start_server_eq)
qed

section \<open>The claims\<close>

text \<open>
  C4. In single-shot mode (capacity below 1) the poller task calls \<open>poller.Poll\<close> once,
  with 0. When \<open>Poll\<close> returns no error the task sets \<open>isScheduledExit\<close>, then calls
  the cancel function of \<open>ctx\<close>, then returns \<open>nil\<close>. When \<open>Poll\<close> returns an error the
  task logs it, leaves \<open>isScheduledExit\<close> as it was, calls the cancel function all the
  same and returns \<open>nil\<close>. The group's error is not touched by the task.
  In every execution of \<open>Run\<close> that starts the poller task, these are the events between
  the start of the task and the return of \<open>g.Wait()\<close>; there is no other call of \<open>Poll\<close>,
  and \<open>isScheduledExit\<close> is set at the end exactly when \<open>Poll\<close> returned no error.
\<close>

theorem C4_single_shot_poller_task:
  assumes cap: "Runner_Capacity cfg < 1"
  shows "(\<exists>st'. poller_task cfg (Some pollErr) st = Some (None, st') \<and>
            events st' =
              events st @ [Log (Polling (Runner_Capacity cfg)), Poll 0] @
              (case pollErr of None \<Rightarrow> [SetScheduledExit] | Some e \<Rightarrow> [Log (PollFailure e)]) @
              [Cancel] \<and>
            isScheduledExit st' = (pollErr = None \<or> isScheduledExit st) \<and>
            ctx_cancelled st' \<and>
            grp st' = grp st) \<and>
         (\<forall>r fin. Run env cfg = Some (r, fin) \<and> GoPoller \<in> set (events fin) \<longrightarrow>
            (\<exists>pe pre post. poll_result env = Some pe \<and>
               events fin =
                 pre @ GoPoller # [Log (Polling (Runner_Capacity cfg)), Poll 0] @
                 (case pe of None \<Rightarrow> [SetScheduledExit] | Some e \<Rightarrow> [Log (PollFailure e)]) @
                 [Cancel, Wait] @ post \<and>
               (\<forall>n. Poll n \<notin> set pre \<and> Poll n \<notin> set post) \<and>
               isScheduledExit fin = (pe = None)))"
proof (intro conjI allI impI)
  from cap show "\<exists>st'. poller_task cfg (Some pollErr) st = Some (None, st') \<and>
            events st' =
              events st @ [Log (Polling (Runner_Capacity cfg)), Poll 0] @
              (case pollErr of None \<Rightarrow> [SetScheduledExit] | Some e \<Rightarrow> [Log (PollFailure e)]) @
              [Cancel] \<and>
            isScheduledExit st' = (pollErr = None \<or> isScheduledExit st) \<and>
            ctx_cancelled st' \<and>
            grp st' = grp st"
    by (cases pollErr) (simp_all add: poller_task_def state_defs)
next
  fix r fin
  assume "Run env cfg = Some (r, fin) \<and> GoPoller \<in> set (events fin)"
  then have run: "Run env cfg = Some (r, fin)" and started: "GoPoller \<in> set (events fin)"
    by simp_all
  from run show "\<exists>pe pre post. poll_result env = Some pe \<and>
       events fin =
         pre @ GoPoller # [Log (Polling (Runner_Capacity cfg)), Poll 0] @
         (case pe of None \<Rightarrow> [SetScheduledExit] | Some e \<Rightarrow> [Log (PollFailure e)]) @
         [Cancel, Wait] @ post \<and>
       (\<forall>n. Poll n \<notin> set pre \<and> Poll n \<notin> set post) \<and>
       isScheduledExit fin = (pe = None)"
  proof (cases rule: Run_cases)
    case (cancelled evs)
    with started loop_event_set [OF cancelled(3)] start_events_set [of cfg] show ?thesis
      by simp
  next
    case (joined evs pe sr)
    let ?pre = "start_events cfg @ Ping (Runner_Name cfg) # evs"
    let ?post = "(if sr = Some Canceled \<and> Runner_Capacity cfg < 1 \<and> pe = None
          then [Log ShutdownScheduled]
          else case sr of None \<Rightarrow> [] | Some e \<Rightarrow> [Log (ShutdownError e)]) @ [Cancel]"
    from cap joined(5) have "events fin =
         ?pre @ GoPoller # [Log (Polling (Runner_Capacity cfg)), Poll 0] @
         (case pe of None \<Rightarrow> [SetScheduledExit] | Some e \<Rightarrow> [Log (PollFailure e)]) @
         [Cancel, Wait] @ ?post"
      by (simp add: poller_events_def)
    moreover have "\<forall>n. Poll n \<notin> set ?pre \<and> Poll n \<notin> set ?post"
      using loop_event_set [OF joined(3)] start_events_set [of cfg]
      by (cases sr) simp_all
    moreover from cap joined(6) have "isScheduledExit fin = (pe = None)"
      by simp
    ultimately show ?thesis
      using joined(1) by blast
  qed
qed

theorem C4_single_shot_poller_task_witness:
  "Runner_Capacity cfg_single < 1 \<and>
   (\<exists>st'. poller_task cfg_single (Some (Some (Failure ''no stage''))) init_state = Some (None, st') \<and>
      events st' = [Log (Polling 0), Poll 0, Log (PollFailure (Failure ''no stage'')), Cancel] \<and>
      \<not> isScheduledExit st' \<and> ctx_cancelled st') \<and>
   (\<exists>st'. poller_task cfg_single (Some None) init_state = Some (None, st') \<and>
      events st' = [Log (Polling 0), Poll 0, SetScheduledExit, Cancel] \<and>
      isScheduledExit st' \<and> ctx_cancelled st') \<and>
   (\<exists>fin pre post. Run env_poll_ok cfg_single = Some (None, fin) \<and>
      GoPoller \<in> set (events fin) \<and>
      events fin = pre @ [GoPoller, Log (Polling 0), Poll 0, SetScheduledExit, Cancel, Wait] @ post \<and>
      isScheduledExit fin)"
proof -
  let ?fin = "\<lparr>events =
         [Log (StartingServer '':3000''), GoServer,
          Ping ''runner'', Log (CannotPing (Failure ''connection refused'')), Sleep Second,
          Ping ''runner'', Log PingedOk, GoPoller,
          Log (Polling 0), Poll 0, SetScheduledExit, Cancel, Wait,
          Log ShutdownScheduled, Cancel],
       ctx_cancelled = True, isScheduledExit = True,
       grp = \<lparr>g_cancel = False, g_err = Some Canceled\<rparr>\<rparr>"
  have cap: "Runner_Capacity cfg_single < 1" and c0: "Runner_Capacity cfg_single = 0"
    by (simp_all add: cfg_single_def)
  have run: "Run env_poll_ok cfg_single = Some (None, ?fin)"
    by (simp add: Run_def Run_body_def start_server_def concurrent_def poller_task_def
        task_done_def wait_def shutdown_def state_defs env_poll_ok_def cfg_single_def
        ping_ok_def ping_down_def)
  have started: "GoPoller \<in> set (events ?fin)"
    by simp
  have poll: "poll_result env_poll_ok = Some None"
    by (simp add: env_poll_ok_def)
  note th = C4_single_shot_poller_task [OF cap]
  from th [of "Some (Failure ''no stage'')" init_state env_poll_ok]
  have A: "\<exists>st'. poller_task cfg_single (Some (Some (Failure ''no stage''))) init_state =
        Some (None, st') \<and>
      events st' = [Log (Polling 0), Poll 0, Log (PollFailure (Failure ''no stage'')), Cancel] \<and>
      \<not> isScheduledExit st' \<and> ctx_cancelled st'"
    by (auto simp: init_state_def c0)
  from th [of None init_state env_poll_ok]
  have B: "\<exists>st'. poller_task cfg_single (Some None) init_state = Some (None, st') \<and>
      events st' = [Log (Polling 0), Poll 0, SetScheduledExit, Cancel] \<and>
      isScheduledExit st' \<and> ctx_cancelled st'"
    by (auto simp: init_state_def c0)
  from th [of None init_state env_poll_ok] run started
  have "\<exists>pe pre post. poll_result env_poll_ok = Some pe \<and>
      events ?fin =
        pre @ GoPoller # [Log (Polling (Runner_Capacity cfg_single)), Poll 0] @
        (case pe of None \<Rightarrow> [SetScheduledExit] | Some e \<Rightarrow> [Log (PollFailure e)]) @
        [Cancel, Wait] @ post \<and>
      (\<forall>n. Poll n \<notin> set pre \<and> Poll n \<notin> set post) \<and>
      isScheduledExit ?fin = (pe = None)"
    by blast
  with poll c0
  have "\<exists>pre post. events ?fin =
      pre @ [GoPoller, Log (Polling 0), Poll 0, SetScheduledExit, Cancel, Wait] @ post"
    by auto
  with run started have C: "\<exists>fin pre post. Run env_poll_ok cfg_single = Some (None, fin) \<and>
      GoPoller \<in> set (events fin) \<and>
      events fin = pre @ [GoPoller, Log (Polling 0), Poll 0, SetScheduledExit, Cancel, Wait] @ post \<and>
      isScheduledExit fin"
    by (intro exI [of _ ?fin]) simp
  from cap A B C show ?thesis
    by blast
qed

text \<open>
  C8. Over any number of iterations of the ping loop in which the ping fails and no
  cancellation is seen, the loop has not ended: it goes on with the next iteration,
  after any number of failures. In each such iteration the loop pings, logs the failure
  and sleeps \<open>time.Second\<close>, which is 1000000000 nanoseconds, before the next ping: when
  the loop ends in the iteration after them, the events it has added are those of the
  failing iterations followed by the last ping, and the durations slept are one
  \<open>time.Second\<close> for each failing iteration.
\<close>

theorem C8_retry_sleeps_one_second:
  assumes pre: "list_all failing pre" and st: "\<not> ctx_cancelled st"
  shows "gate cfg pre st = None \<and>
     gate cfg (pre @ obs) st =
       gate cfg obs (st\<lparr>events := events st @ retry_events (Runner_Name cfg) pre\<rparr>) \<and>
     sleeps (retry_events (Runner_Name cfg) pre) = replicate (length pre) Second \<and>
     Second = 1000000000 \<and>
     (\<not> failing ob \<longrightarrow>
        (\<exists>x st'. gate cfg (pre @ ob # rest) st = Some (x, st') \<and>
           events st' =
             events st @ retry_events (Runner_Name cfg) pre @ Ping (Runner_Name cfg) #
             (if parent_done_select ob \<or> parent_done_err ob then [] else [Log PingedOk]) \<and>
           sleeps (events st') = sleeps (events st) @ replicate (length pre) Second)) \<and>
     (\<forall>e. failing ob1 \<and> ping_result ob1 = Some e \<and> \<not> failing ob \<longrightarrow>
        (\<exists>x st'. gate cfg (ob1 # ob # rest) st = Some (x, st') \<and>
           events st' =
             events st @
             [Ping (Runner_Name cfg), Log (CannotPing e), Sleep Second, Ping (Runner_Name cfg)] @
             (if parent_done_select ob \<or> parent_done_err ob then [] else [Log PingedOk])))"
proof -
  have 1: "gate cfg pre st = None"
    using gate_retry [OF pre st, of cfg "[]"] by simp
  have 2: "gate cfg (pre @ obs) st =
       gate cfg obs (st\<lparr>events := events st @ retry_events (Runner_Name cfg) pre\<rparr>)"
    by (rule gate_retry [OF pre st])
  have 3: "sleeps (retry_events (Runner_Name cfg) pre) = replicate (length pre) Second"
    by (rule sleeps_retry_events [OF pre])
  have 4: "Second = 1000000000"
    by (simp add: Second_def)
  have 5: "\<not> failing ob \<longrightarrow>
        (\<exists>x st'. gate cfg (pre @ ob # rest) st = Some (x, st') \<and>
           events st' =
             events st @ retry_events (Runner_Name cfg) pre @ Ping (Runner_Name cfg) #
             (if parent_done_select ob \<or> parent_done_err ob then [] else [Log PingedOk]) \<and>
           sleeps (events st') = sleeps (events st) @ replicate (length pre) Second)"
  proof
    assume ob: "\<not> failing ob"
    let ?st' = "st\<lparr>events := events st @ retry_events (Runner_Name cfg) pre @
          Ping (Runner_Name cfg) #
          (if parent_done_select ob \<or> parent_done_err ob then [] else [Log PingedOk])\<rparr>"
    note g = gate_end [OF pre ob st, of cfg rest]
    have "sleeps (events ?st') = sleeps (events st) @ replicate (length pre) Second"
      by (simp add: sleeps_append 3)
    with g show "\<exists>x st'. gate cfg (pre @ ob # rest) st = Some (x, st') \<and>
           events st' =
             events st @ retry_events (Runner_Name cfg) pre @ Ping (Runner_Name cfg) #
             (if parent_done_select ob \<or> parent_done_err ob then [] else [Log PingedOk]) \<and>
           sleeps (events st') = sleeps (events st) @ replicate (length pre) Second"
      by (intro exI [of _ "if parent_done_select ob then Return_nil else Break"]
          exI [of _ ?st']) simp
  qed
  have 6: "\<forall>e. failing ob1 \<and> ping_result ob1 = Some e \<and> \<not> failing ob \<longrightarrow>
        (\<exists>x st'. gate cfg (ob1 # ob # rest) st = Some (x, st') \<and>
           events st' =
             events st @
             [Ping (Runner_Name cfg), Log (CannotPing e), Sleep Second, Ping (Runner_Name cfg)] @
             (if parent_done_select ob \<or> parent_done_err ob then [] else [Log PingedOk]))"
  proof (intro allI impI)
    fix e
    assume "failing ob1 \<and> ping_result ob1 = Some e \<and> \<not> failing ob"
    then have f: "list_all failing [ob1]" and e: "ping_result ob1 = Some e" and ob: "\<not> failing ob"
      by simp_all
    let ?st' = "st\<lparr>events := events st @
          [Ping (Runner_Name cfg), Log (CannotPing e), Sleep Second, Ping (Runner_Name cfg)] @
          (if parent_done_select ob \<or> parent_done_err ob then [] else [Log PingedOk])\<rparr>"
    from gate_end [OF f ob st, of cfg rest] e
    have "gate cfg (ob1 # ob # rest) st =
        Some (if parent_done_select ob then Return_nil else Break, ?st')"
      by simp
    then show "\<exists>x st'. gate cfg (ob1 # ob # rest) st = Some (x, st') \<and>
           events st' =
             events st @
             [Ping (Runner_Name cfg), Log (CannotPing e), Sleep Second, Ping (Runner_Name cfg)] @
             (if parent_done_select ob \<or> parent_done_err ob then [] else [Log PingedOk])"
      by (intro exI [of _ "if parent_done_select ob then Return_nil else Break"]
          exI [of _ ?st']) simp
  qed
  from 1 2 3 4 5 6 show ?thesis
    by blast
qed

theorem C8_retry_sleeps_one_second_witness:
  "list_all failing [ping_down, ping_down] \<and> \<not> ctx_cancelled init_state \<and>
   \<not> failing ping_ok \<and>
   gate cfg_single [ping_down, ping_down] init_state = None \<and>
   gate cfg_single ([ping_down, ping_down] @ [ping_ok]) init_state =
     gate cfg_single [ping_ok]
       (init_state\<lparr>events :=
          [Ping ''runner'', Log (CannotPing (Failure ''connection refused'')), Sleep 1000000000,
           Ping ''runner'', Log (CannotPing (Failure ''connection refused'')), Sleep 1000000000]\<rparr>) \<and>
   sleeps (retry_events ''runner'' [ping_down, ping_down]) = [1000000000, 1000000000] \<and>
   (\<exists>x st'. gate cfg_single ([ping_down, ping_down] @ ping_ok # []) init_state = Some (x, st') \<and>
      events st' =
        [Ping ''runner'', Log (CannotPing (Failure ''connection refused'')), Sleep 1000000000,
         Ping ''runner'', Log (CannotPing (Failure ''connection refused'')), Sleep 1000000000,
         Ping ''runner'', Log PingedOk] \<and>
      sleeps (events st') = [1000000000, 1000000000])"
proof -
  have f: "list_all failing [ping_down, ping_down]"
    by (simp add: failing_def ping_down_def)
  have c: "\<not> ctx_cancelled init_state"
    by (simp add: init_state_def)
  have n: "\<not> failing ping_ok"
    by (simp add: failing_def ping_ok_def)
  note th = C8_retry_sleeps_one_second [OF f c, where cfg = cfg_single and obs = "[ping_ok]"
      and ob = ping_ok and rest = "[]"]
  from th have A: "gate cfg_single [ping_down, ping_down] init_state = None \<and>
     gate cfg_single ([ping_down, ping_down] @ [ping_ok]) init_state =
       gate cfg_single [ping_ok]
         (init_state\<lparr>events := events init_state @
            retry_events (Runner_Name cfg_single) [ping_down, ping_down]\<rparr>) \<and>
     sleeps (retry_events (Runner_Name cfg_single) [ping_down, ping_down]) =
       replicate (length [ping_down, ping_down]) Second"
    by blast
  from th n
  have B: "\<exists>x st'. gate cfg_single ([ping_down, ping_down] @ ping_ok # []) init_state =
        Some (x, st') \<and>
      events st' =
        events init_state @ retry_events (Runner_Name cfg_single) [ping_down, ping_down] @
        Ping (Runner_Name cfg_single) #
        (if parent_done_select ping_ok \<or> parent_done_err ping_ok then [] else [Log PingedOk]) \<and>
      sleeps (events st') =
        sleeps (events init_state) @ replicate (length [ping_down, ping_down]) Second"
    by blast
  from A have A': "gate cfg_single [ping_down, ping_down] init_state = None \<and>
     gate cfg_single ([ping_down, ping_down] @ [ping_ok]) init_state =
       gate cfg_single [ping_ok]
         (init_state\<lparr>events :=
            [Ping ''runner'', Log (CannotPing (Failure ''connection refused'')), Sleep 1000000000,
             Ping ''runner'', Log (CannotPing (Failure ''connection refused'')),
             Sleep 1000000000]\<rparr>) \<and>
     sleeps (retry_events ''runner'' [ping_down, ping_down]) = [1000000000, 1000000000]"
    by (simp add: init_state_def cfg_single_def ping_down_def Second_def)
  from B have B': "\<exists>x st'. gate cfg_single ([ping_down, ping_down] @ ping_ok # []) init_state =
        Some (x, st') \<and>
      events st' =
        [Ping ''runner'', Log (CannotPing (Failure ''connection refused'')), Sleep 1000000000,
         Ping ''runner'', Log (CannotPing (Failure ''connection refused'')), Sleep 1000000000,
         Ping ''runner'', Log PingedOk] \<and>
      sleeps (events st') = [1000000000, 1000000000]"
    by (simp add: init_state_def cfg_single_def ping_down_def ping_ok_def Second_def)
  from f c n A' B' show ?thesis
    by blast
qed



text \<open>
  C9. The poller task returns \<open>nil\<close> whenever it returns, in both modes. So an error
  kept by the group when \<open>Run\<close> returns is the one the server task returned, and the
  server is enabled.
\<close>

theorem C9_join_error_is_the_servers:
  "(poller_task cfg poll st0 = Some (pr, st1) \<longrightarrow> pr = None) \<and>
   (Run env cfg = Some (r, st) \<and> g_err (grp st) = Some e \<longrightarrow>
      Server_Port cfg \<noteq> ''false'' \<and> serve_result env = Some (Some e))"
proof (intro conjI impI)
  assume "poller_task cfg poll st0 = Some (pr, st1)"
  then show "pr = None"
    by (cases poll) (simp_all add: poller_task_Some poller_task_None)
next
  assume "Run env cfg = Some (r, st) \<and> g_err (grp st) = Some e"
  then have run: "Run env cfg = Some (r, st)" and e: "g_err (grp st) = Some e"
    by simp_all
  from run have "Server_Port cfg \<noteq> ''false'' \<and> serve_result env = Some (Some e)"
  proof (cases rule: Run_cases)
    case (cancelled evs)
    with e show ?thesis
      by simp
  next
    case (joined evs pe sr)
    with e show ?thesis
      by (auto split: if_splits)
  qed
  then show "Server_Port cfg \<noteq> ''false''" and "serve_result env = Some (Some e)"
    by simp_all
qed

theorem C9_join_error_is_the_servers_witness:
  "(\<exists>st1. poller_task cfg_continuous (Some (Some (Failure ''boom''))) init_state =
      Some (None, st1)) \<and>
   (\<exists>r st. Run env_poll_fails cfg_continuous = Some (r, st) \<and>
      g_err (grp st) = Some Canceled) \<and>
   Server_Port cfg_continuous \<noteq> ''false'' \<and>
   serve_result env_poll_fails = Some (Some Canceled)"
proof -
  let ?st1 = "init_state\<lparr>events := [Log (Polling 2), Poll 2]\<rparr>"
  let ?st = "\<lparr>events =
         [Log (StartingServer '':3000''), GoServer, Ping ''runner'', Log PingedOk, GoPoller,
          Log (Polling 2), Poll 2, Wait, Log (ShutdownError Canceled), Cancel],
       ctx_cancelled = True, isScheduledExit = False,
       grp = \<lparr>g_cancel = False, g_err = Some Canceled\<rparr>\<rparr>"
  have 1: "poller_task cfg_continuous (Some (Some (Failure ''boom''))) init_state =
      Some (None, ?st1)"
    by (simp add: poller_task_def state_defs cfg_continuous_def)
  have 2: "Run env_poll_fails cfg_continuous = Some (Some Canceled, ?st)"
    by (simp add: Run_def Run_body_def start_server_def concurrent_def poller_task_def
        task_done_def wait_def shutdown_def state_defs env_poll_fails_def cfg_continuous_def
        ping_ok_def)
  have 3: "g_err (grp ?st) = Some Canceled"
    by simp
  from C9_join_error_is_the_servers
    [of cfg_continuous "Some (Some (Failure ''boom''))" init_state None ?st1
      env_poll_fails "Some Canceled" ?st Canceled] 1 2 3
  have "Server_Port cfg_continuous \<noteq> ''false'' \<and>
      serve_result env_poll_fails = Some (Some Canceled)"
    by blast
  with 1 2 3 show ?thesis
    by blast
qed

text \<open>
  C1, as the code has it. In continuous mode (capacity at least 1) the value that
  \<open>poller.Poll\<close> returns is dropped (line 165) and the poller task returns \<open>nil\<close>. \<open>Run\<close>
  returns what the server task returned, or \<open>nil\<close> when the server is disabled; the
  cancel function of \<open>ctx\<close> is called only by the deferred call when \<open>Run\<close> returns; and
  another value returned by \<open>Poll\<close> changes nothing of what \<open>Run\<close> returns and does.
\<close>

theorem C1_continuous_poll_result_dropped:
  assumes cap: "1 \<le> Runner_Capacity cfg"
    and poll: "poll_result env = Some pollErr"
    and run: "Run env cfg = Some (r, st)"
    and started: "GoPoller \<in> set (events st)"
  shows "(if Server_Port cfg \<noteq> ''false'' then serve_result env = Some r else r = None) \<and>
         (\<exists>evs. events st = evs @ [Cancel] \<and> Cancel \<notin> set evs) \<and>
         Run (env\<lparr>poll_result := Some pollErr'\<rparr>) cfg = Run env cfg"
proof -
  have same: "Run (env\<lparr>poll_result := Some pollErr'\<rparr>) cfg = Run env cfg"
  proof (cases "gate cfg (pings env) (init_state\<lparr>events := start_events cfg\<rparr>)")
    case None
    then show ?thesis
      by (simp add: Run_def Run_body_def start_server_eq)
  next
    case (Some res)
    obtain x st1 where res: "res = (x, st1)"
      by (cases res)
    show ?thesis
    proof (cases x)
      case Return_nil
      with Some res show ?thesis
        by (simp add: Run_def Run_body_def start_server_eq)
    next
      case Break
      with Some res
      have g: "gate cfg (pings env) (init_state\<lparr>events := start_events cfg\<rparr>) = Some (Break, st1)"
        by simp
      then have g': "gate cfg (pings (env\<lparr>poll_result := Some pollErr'\<rparr>))
          (init_state\<lparr>events := start_events cfg\<rparr>) = Some (Break, st1)"
        by simp
      from cap have "joined cfg pollErr' sr s = joined cfg pollErr sr s" for sr s
        by (simp add: joined_def poller_events_def)
      with poll show ?thesis
        by (simp add: Run_def Run_body_Break [OF g] Run_body_Break [OF g']
            split: option.splits)
    qed
  qed
  from run have "(if Server_Port cfg \<noteq> ''false'' then serve_result env = Some r else r = None) \<and>
         (\<exists>evs. events st = evs @ [Cancel] \<and> Cancel \<notin> set evs)"
  proof (cases rule: Run_cases)
    case (cancelled evs)
    with started loop_event_set [OF cancelled(3)] start_events_set [of cfg] show ?thesis
      by simp
  next
    case (joined evs pe sr)
    let ?evs = "start_events cfg @ Ping (Runner_Name cfg) # evs @ GoPoller # poller_events cfg pe @
         Wait # (case sr of None \<Rightarrow> [] | Some e \<Rightarrow> [Log (ShutdownError e)])"
    from cap joined(5) have "events st = ?evs @ [Cancel]"
      by simp
    moreover from cap loop_event_set [OF joined(3)] start_events_set [of cfg]
    have "Cancel \<notin> set ?evs"
      by (cases sr) (simp_all add: poller_events_def)
    moreover from cap joined(2,4)
    have "if Server_Port cfg \<noteq> ''false'' then serve_result env = Some r else r = None"
      by (simp split: if_splits)
    ultimately show ?thesis
      by blast
  qed
  with same show ?thesis
    by simp
qed

theorem C1_continuous_poll_result_dropped_witness:
  "1 \<le> Runner_Capacity cfg_continuous \<and>
   poll_result env_poll_fails = Some (Some (Failure ''boom'')) \<and>
   (\<exists>st. Run env_poll_fails cfg_continuous = Some (Some Canceled, st) \<and>
      GoPoller \<in> set (events st) \<and>
      (\<exists>evs. events st = evs @ [Cancel] \<and> Cancel \<notin> set evs)) \<and>
   serve_result env_poll_fails = Some (Some Canceled) \<and>
   Run (env_poll_fails\<lparr>poll_result := Some None\<rparr>) cfg_continuous =
     Run env_poll_fails cfg_continuous"
proof -
  let ?st = "\<lparr>events =
         [Log (StartingServer '':3000''), GoServer, Ping ''runner'', Log PingedOk, GoPoller,
          Log (Polling 2), Poll 2, Wait, Log (ShutdownError Canceled), Cancel],
       ctx_cancelled = True, isScheduledExit = False,
       grp = \<lparr>g_cancel = False, g_err = Some Canceled\<rparr>\<rparr>"
  have cap: "1 \<le> Runner_Capacity cfg_continuous"
    by (simp add: cfg_continuous_def)
  have poll: "poll_result env_poll_fails = Some (Some (Failure ''boom''))"
    by (simp add: env_poll_fails_def)
  have run: "Run env_poll_fails cfg_continuous = Some (Some Canceled, ?st)"
    by (simp add: Run_def Run_body_def start_server_def concurrent_def poller_task_def
        task_done_def wait_def shutdown_def state_defs env_poll_fails_def cfg_continuous_def
        ping_ok_def)
  have started: "GoPoller \<in> set (events ?st)"
    by simp
  have port: "Server_Port cfg_continuous \<noteq> ''false''"
    by (simp add: cfg_continuous_def)
  from C1_continuous_poll_result_dropped [OF cap poll run started, of None] port
  have "serve_result env_poll_fails = Some (Some Canceled) \<and>
      (\<exists>evs. events ?st = evs @ [Cancel] \<and> Cancel \<notin> set evs) \<and>
      Run (env_poll_fails\<lparr>poll_result := Some None\<rparr>) cfg_continuous =
        Run env_poll_fails cfg_continuous"
    by simp
  with cap poll run started show ?thesis
    by blast
qed

text \<open>
  C1 as stated fails: with the server disabled, capacity 1 and \<open>Poll\<close> returning the
  error \<open>boom\<close>, \<open>Run\<close> returns \<open>nil\<close>, and the only call of the cancel function is the
  deferred one, after \<open>g.Wait()\<close> has returned.
\<close>

theorem C1_counterexample:
  "Run env_poll_fails cfg_no_server =
     Some (None,
       \<lparr>events =
          [Log ServerDisabled, Ping ''runner'', Log PingedOk, GoPoller,
           Log (Polling 1), Poll 1, Wait, Cancel],
        ctx_cancelled = True, isScheduledExit = False,
        grp = \<lparr>g_cancel = False, g_err = None\<rparr>\<rparr>) \<and>
   poll_result env_poll_fails = Some (Some (Failure ''boom'')) \<and>
   map_option fst (Run env_poll_fails cfg_no_server) \<noteq> Some (Some (Failure ''boom''))"
  by (simp add: Run_def Run_body_def start_server_def concurrent_def poller_task_def
      task_done_def wait_def shutdown_def state_defs env_poll_fails_def cfg_no_server_def
      ping_ok_def)

text \<open>
  C5, as the code has it. In single-shot mode (capacity below 1) with \<open>Poll\<close> returning an
  error, the error is logged, \<open>isScheduledExit\<close> stays false and the poller task returns
  \<open>nil\<close>. \<open>Run\<close> returns \<open>nil\<close> when the server is disabled; when it is enabled \<open>Run\<close>
  returns what the server task returned, \<open>context.Canceled\<close> included.
\<close>

theorem C5_single_shot_poll_error:
  assumes cap: "Runner_Capacity cfg < 1"
    and poll: "poll_result env = Some (Some e)"
    and run: "Run env cfg = Some (r, st)"
    and started: "GoPoller \<in> set (events st)"
  shows "(if Server_Port cfg \<noteq> ''false'' then serve_result env = Some r else r = None) \<and>
         Log (PollFailure e) \<in> set (events st) \<and>
         \<not> isScheduledExit st"
  using run
proof (cases rule: Run_cases)
  case (cancelled evs)
  with started loop_event_set [OF cancelled(3)] start_events_set [of cfg] show ?thesis
    by simp
next
  case (joined evs pe sr)
  from joined(1) poll have pe: "pe = Some e"
    by simp
  from cap pe joined(5) have "Log (PollFailure e) \<in> set (events st)"
    by (simp add: poller_events_def)
  moreover from pe joined(6) have "\<not> isScheduledExit st"
    by simp
  moreover from pe joined(2,4)
  have "if Server_Port cfg \<noteq> ''false'' then serve_result env = Some r else r = None"
    by (simp split: if_splits)
  ultimately show ?thesis
    by blast
qed

theorem C5_single_shot_poll_error_witness:
  "Runner_Capacity (cfg_no_server\<lparr>Runner_Capacity := 0\<rparr>) < 1 \<and>
   poll_result env_poll_fails = Some (Some (Failure ''boom'')) \<and>
   (\<exists>st. Run env_poll_fails (cfg_no_server\<lparr>Runner_Capacity := 0\<rparr>) = Some (None, st) \<and>
      GoPoller \<in> set (events st) \<and>
      Log (PollFailure (Failure ''boom'')) \<in> set (events st) \<and>
      \<not> isScheduledExit st)"
proof -
  let ?cfg = "cfg_no_server\<lparr>Runner_Capacity := 0\<rparr>"
  let ?st = "\<lparr>events =
          [Log ServerDisabled, Ping ''runner'', Log PingedOk, GoPoller,
           Log (Polling 0), Poll 0, Log (PollFailure (Failure ''boom'')), Cancel, Wait, Cancel],
        ctx_cancelled = True, isScheduledExit = False,
        grp = \<lparr>g_cancel = False, g_err = None\<rparr>\<rparr>"
  have cap: "Runner_Capacity ?cfg < 1"
    by simp
  have poll: "poll_result env_poll_fails = Some (Some (Failure ''boom''))"
    by (simp add: env_poll_fails_def)
  have run: "Run env_poll_fails ?cfg = Some (None, ?st)"
    by (simp add: Run_def Run_body_def start_server_def concurrent_def poller_task_def
        task_done_def wait_def shutdown_def state_defs env_poll_fails_def cfg_no_server_def
        ping_ok_def)
  have started: "GoPoller \<in> set (events ?st)"
    by simp
  from C5_single_shot_poll_error [OF cap poll run started] cap poll run started
  show ?thesis
    by blast
qed

text \<open>
  C5 as stated fails when the server is enabled: \<open>Poll\<close> returns an error, the poller
  task cancels \<open>ctx\<close>, the server task returns \<open>context.Canceled\<close>, and \<open>Run\<close>, whose
  \<open>isScheduledExit\<close> is false, returns \<open>context.Canceled\<close>.
\<close>

theorem C5_counterexample:
  "Run env_poll_fails cfg_single =
     Some (Some Canceled,
       \<lparr>events =
          [Log (StartingServer '':3000''), GoServer, Ping ''runner'', Log PingedOk, GoPoller,
           Log (Polling 0), Poll 0, Log (PollFailure (Failure ''boom'')), Cancel, Wait,
           Log (ShutdownError Canceled), Cancel],
        ctx_cancelled = True, isScheduledExit = False,
        grp = \<lparr>g_cancel = False, g_err = Some Canceled\<rparr>\<rparr>) \<and>
   Runner_Capacity cfg_single < 1 \<and>
   poll_result env_poll_fails = Some (Some (Failure ''boom'')) \<and>
   map_option fst (Run env_poll_fails cfg_single) \<noteq> Some None"
  by (simp add: Run_def Run_body_def start_server_def concurrent_def poller_task_def
      task_done_def wait_def shutdown_def state_defs env_poll_fails_def cfg_single_def
      ping_ok_def)

text \<open>
  C2, as the code has it. The poller task is started only after the ping loop has fully
  completed, with a successful ping or with a cancellation: when the poller task has
  been started, the loop ran through failing iterations and ended in an iteration in
  which the ping succeeded or the cancellation was seen at \<open>ctx.Err()\<close>; what comes
  before the start are the events of exactly these iterations, and nothing of the loop
  follows it. When the loop ends by the \<open>return\<close> on a cancellation seen at the
  \<open>select\<close>, the poller task is not started, and as long as the loop has not ended
  \<open>Run\<close> has not returned. This holds also of executions in which a task never returns:
  the concurrent phase begins in the state the loop has left.
  The server task, when the server is enabled, is started before the first ping of the
  loop; when it is disabled no server task is started.
\<close>

theorem C2_poller_after_loop_server_before:
  "(\<forall>r st. Run env cfg = Some (r, st) \<longrightarrow>
      (Server_Port cfg \<noteq> ''false'' \<longrightarrow>
         (\<exists>tl. events st =
            [Log (StartingServer (Server_Port cfg)), GoServer, Ping (Runner_Name cfg)] @ tl \<and>
            GoServer \<notin> set tl)) \<and>
      (Server_Port cfg = ''false'' \<longrightarrow> GoServer \<notin> set (events st)) \<and>
      (\<forall>before post. events st = before @ GoPoller # post \<longrightarrow>
         list_all (\<lambda>e. \<not> loop_event e) post \<and> Ping (Runner_Name cfg) \<in> set before \<and>
         (\<exists>pre ob rest. pings env = pre @ ob # rest \<and> list_all failing pre \<and>
            \<not> parent_done_select ob \<and> (parent_done_err ob \<or> ping_result ob = None) \<and>
            before =
              start_events cfg @ retry_events (Runner_Name cfg) pre @ Ping (Runner_Name cfg) #
              (if parent_done_err ob then [] else [Log PingedOk])))) \<and>
   (\<forall>pre ob rest.
      pings env = pre @ ob # rest \<and> list_all failing pre \<and>
      \<not> parent_done_select ob \<and> (parent_done_err ob \<or> ping_result ob = None) \<longrightarrow>
      Run_body env cfg =
        (case concurrent env cfg
           (init_state\<lparr>events := start_events cfg @ retry_events (Runner_Name cfg) pre @
              Ping (Runner_Name cfg) # (if parent_done_err ob then [] else [Log PingedOk]) @
              [GoPoller]\<rparr>) of
           None \<Rightarrow> None
         | Some (err, st2) \<Rightarrow> Some (shutdown err st2))) \<and>
   (\<forall>pre ob rest.
      pings env = pre @ ob # rest \<and> list_all failing pre \<and> parent_done_select ob \<longrightarrow>
      (\<exists>st. Run env cfg = Some (None, st) \<and> GoPoller \<notin> set (events st))) \<and>
   (list_all failing (pings env) \<longrightarrow> Run env cfg = None)"
proof -
  have returned: "\<forall>r st. Run env cfg = Some (r, st) \<longrightarrow>
      (Server_Port cfg \<noteq> ''false'' \<longrightarrow>
         (\<exists>tl. events st =
            [Log (StartingServer (Server_Port cfg)), GoServer, Ping (Runner_Name cfg)] @ tl \<and>
            GoServer \<notin> set tl)) \<and>
      (Server_Port cfg = ''false'' \<longrightarrow> GoServer \<notin> set (events st)) \<and>
      (\<forall>before post. events st = before @ GoPoller # post \<longrightarrow>
         list_all (\<lambda>e. \<not> loop_event e) post \<and> Ping (Runner_Name cfg) \<in> set before \<and>
         (\<exists>pre ob rest. pings env = pre @ ob # rest \<and> list_all failing pre \<and>
            \<not> parent_done_select ob \<and> (parent_done_err ob \<or> ping_result ob = None) \<and>
            before =
              start_events cfg @ retry_events (Runner_Name cfg) pre @ Ping (Runner_Name cfg) #
              (if parent_done_err ob then [] else [Log PingedOk])))"
  proof (intro allI impI)
    fix r st
    assume run: "Run env cfg = Some (r, st)"
    have server: "(Server_Port cfg \<noteq> ''false'' \<longrightarrow>
         (\<exists>tl. events st =
            [Log (StartingServer (Server_Port cfg)), GoServer, Ping (Runner_Name cfg)] @ tl \<and>
            GoServer \<notin> set tl)) \<and>
      (Server_Port cfg = ''false'' \<longrightarrow> GoServer \<notin> set (events st))"
      using run
    proof (cases rule: Run_cases)
      case (cancelled evs)
      from cancelled(2) loop_event_set [OF cancelled(3)] show ?thesis
        by (simp add: start_events_def)
    next
      case (joined evs pe sr)
      let ?B = "poller_events cfg pe @ Wait #
         (if sr = Some Canceled \<and> Runner_Capacity cfg < 1 \<and> pe = None
          then [Log ShutdownScheduled]
          else case sr of None \<Rightarrow> [] | Some e \<Rightarrow> [Log (ShutdownError e)]) @ [Cancel]"
      have "GoServer \<notin> set ?B"
        by (cases sr; cases pe) (simp_all add: poller_events_def)
      with joined(5) loop_event_set [OF joined(3)] show ?thesis
        by (simp add: start_events_def)
    qed
    have poller: "\<forall>before post. events st = before @ GoPoller # post \<longrightarrow>
         list_all (\<lambda>e. \<not> loop_event e) post \<and> Ping (Runner_Name cfg) \<in> set before \<and>
         (\<exists>pre ob rest. pings env = pre @ ob # rest \<and> list_all failing pre \<and>
            \<not> parent_done_select ob \<and> (parent_done_err ob \<or> ping_result ob = None) \<and>
            before =
              start_events cfg @ retry_events (Runner_Name cfg) pre @ Ping (Runner_Name cfg) #
              (if parent_done_err ob then [] else [Log PingedOk]))"
      using run
    proof (cases rule: Run_gate_cases)
      case (cancelled pre ob rest)
      from cancelled(5) loop_event_set [OF retry_events_loop, of "Runner_Name cfg" pre]
        start_events_set [of cfg]
      have "GoPoller \<notin> set (events st)"
        by simp
      then show ?thesis
        by auto
    next
      case (joined pre ob rest pe sr)
      let ?A = "start_events cfg @ retry_events (Runner_Name cfg) pre @ Ping (Runner_Name cfg) #
         (if parent_done_err ob then [] else [Log PingedOk])"
      let ?B = "poller_events cfg pe @ Wait #
         (if sr = Some Canceled \<and> Runner_Capacity cfg < 1 \<and> pe = None
          then [Log ShutdownScheduled]
          else case sr of None \<Rightarrow> [] | Some e \<Rightarrow> [Log (ShutdownError e)]) @ [Cancel]"
      from joined(7) have ev: "events st = ?A @ GoPoller # ?B"
        by simp
      have B: "list_all (\<lambda>e. \<not> loop_event e) ?B"
        by (cases sr; cases pe) (simp_all add: poller_events_def)
      then have GB: "GoPoller \<notin> set ?B"
        by (cases sr; cases pe) (simp_all add: poller_events_def)
      from loop_event_set [OF retry_events_loop, of "Runner_Name cfg" pre] start_events_set [of cfg]
      have GA: "GoPoller \<notin> set ?A"
        by simp
      have PA: "Ping (Runner_Name cfg) \<in> set ?A"
        by simp
      show ?thesis
      proof (intro allI impI)
        fix before post
        assume "events st = before @ GoPoller # post"
        with ev have eq: "?A @ GoPoller # ?B = before @ GoPoller # post"
          by simp
        have "?A = before \<and> ?B = post"
          by (rule iffD1 [OF append_Cons_eq_iff [OF GA GB] eq])
        then have before: "before = ?A" and post: "post = ?B"
          by simp_all
        from joined(1,2,3,4) before
        have "\<exists>pre ob rest. pings env = pre @ ob # rest \<and> list_all failing pre \<and>
            \<not> parent_done_select ob \<and> (parent_done_err ob \<or> ping_result ob = None) \<and>
            before =
              start_events cfg @ retry_events (Runner_Name cfg) pre @ Ping (Runner_Name cfg) #
              (if parent_done_err ob then [] else [Log PingedOk])"
          by blast
        with B PA before post
        show "list_all (\<lambda>e. \<not> loop_event e) post \<and> Ping (Runner_Name cfg) \<in> set before \<and>
         (\<exists>pre ob rest. pings env = pre @ ob # rest \<and> list_all failing pre \<and>
            \<not> parent_done_select ob \<and> (parent_done_err ob \<or> ping_result ob = None) \<and>
            before =
              start_events cfg @ retry_events (Runner_Name cfg) pre @ Ping (Runner_Name cfg) #
              (if parent_done_err ob then [] else [Log PingedOk]))"
          by simp
      qed
    qed
    from server poller
    show "(Server_Port cfg \<noteq> ''false'' \<longrightarrow>
         (\<exists>tl. events st =
            [Log (StartingServer (Server_Port cfg)), GoServer, Ping (Runner_Name cfg)] @ tl \<and>
            GoServer \<notin> set tl)) \<and>
      (Server_Port cfg = ''false'' \<longrightarrow> GoServer \<notin> set (events st)) \<and>
      (\<forall>before post. events st = before @ GoPoller # post \<longrightarrow>
         list_all (\<lambda>e. \<not> loop_event e) post \<and> Ping (Runner_Name cfg) \<in> set before \<and>
         (\<exists>pre ob rest. pings env = pre @ ob # rest \<and> list_all failing pre \<and>
            \<not> parent_done_select ob \<and> (parent_done_err ob \<or> ping_result ob = None) \<and>
            before =
              start_events cfg @ retry_events (Runner_Name cfg) pre @ Ping (Runner_Name cfg) #
              (if parent_done_err ob then [] else [Log PingedOk])))"
      by blast
  qed
  have break: "\<forall>pre ob rest.
      pings env = pre @ ob # rest \<and> list_all failing pre \<and>
      \<not> parent_done_select ob \<and> (parent_done_err ob \<or> ping_result ob = None) \<longrightarrow>
      Run_body env cfg =
        (case concurrent env cfg
           (init_state\<lparr>events := start_events cfg @ retry_events (Runner_Name cfg) pre @
              Ping (Runner_Name cfg) # (if parent_done_err ob then [] else [Log PingedOk]) @
              [GoPoller]\<rparr>) of
           None \<Rightarrow> None
         | Some (err, st2) \<Rightarrow> Some (shutdown err st2))"
  proof (intro allI impI)
    fix pre ob rest
    assume "pings env = pre @ ob # rest \<and> list_all failing pre \<and>
      \<not> parent_done_select ob \<and> (parent_done_err ob \<or> ping_result ob = None)"
    then have "list_all failing pre" "\<not> parent_done_select ob"
      "parent_done_err ob \<or> ping_result ob = None" "pings env = pre @ ob # rest"
      by simp_all
    then show "Run_body env cfg =
        (case concurrent env cfg
           (init_state\<lparr>events := start_events cfg @ retry_events (Runner_Name cfg) pre @
              Ping (Runner_Name cfg) # (if parent_done_err ob then [] else [Log PingedOk]) @
              [GoPoller]\<rparr>) of
           None \<Rightarrow> None
         | Some (err, st2) \<Rightarrow> Some (shutdown err st2))"
      by (rule Run_body_Break_at)
  qed
  have return: "\<forall>pre ob rest.
      pings env = pre @ ob # rest \<and> list_all failing pre \<and> parent_done_select ob \<longrightarrow>
      (\<exists>st. Run env cfg = Some (None, st) \<and> GoPoller \<notin> set (events st))"
  proof (intro allI impI)
    fix pre ob rest
    assume "pings env = pre @ ob # rest \<and> list_all failing pre \<and> parent_done_select ob"
    then have a: "list_all failing pre" "parent_done_select ob" "pings env = pre @ ob # rest"
      by simp_all
    let ?st = "init_state\<lparr>events := start_events cfg @ retry_events (Runner_Name cfg) pre @
                    [Ping (Runner_Name cfg), Cancel],
                  ctx_cancelled := True\<rparr>"
    from loop_event_set [OF retry_events_loop, of "Runner_Name cfg" pre] start_events_set [of cfg]
    have "GoPoller \<notin> set (events ?st)"
      by simp
    with Run_Return_nil [OF a, of cfg]
    show "\<exists>st. Run env cfg = Some (None, st) \<and> GoPoller \<notin> set (events st)"
      by blast
  qed
  have unfinished: "list_all failing (pings env) \<longrightarrow> Run env cfg = None"
    by (simp add: Run_unfinished)
  from returned break return unfinished show ?thesis
    by blast
qed

theorem C2_poller_after_loop_server_before_witness:
  "Server_Port cfg_single \<noteq> ''false'' \<and>
   (\<exists>st. Run env_poll_ok cfg_single = Some (None, st) \<and>
      (\<exists>tl. events st = [Log (StartingServer '':3000''), GoServer, Ping ''runner''] @ tl \<and>
         GoServer \<notin> set tl) \<and>
      events st =
        [Log (StartingServer '':3000''), GoServer,
         Ping ''runner'', Log (CannotPing (Failure ''connection refused'')), Sleep Second,
         Ping ''runner'', Log PingedOk] @ GoPoller #
        [Log (Polling 0), Poll 0, SetScheduledExit, Cancel, Wait, Log ShutdownScheduled, Cancel]) \<and>
   list_all (\<lambda>e. \<not> loop_event e)
     [Log (Polling 0), Poll 0, SetScheduledExit, Cancel, Wait, Log ShutdownScheduled, Cancel] \<and>
   (\<exists>pre ob rest. pings env_poll_ok = pre @ ob # rest \<and> list_all failing pre \<and>
      \<not> parent_done_select ob \<and> (parent_done_err ob \<or> ping_result ob = None) \<and>
      [Log (StartingServer '':3000''), GoServer,
       Ping ''runner'', Log (CannotPing (Failure ''connection refused'')), Sleep Second,
       Ping ''runner'', Log PingedOk] =
        start_events cfg_single @ retry_events ''runner'' pre @ Ping ''runner'' #
        (if parent_done_err ob then [] else [Log PingedOk])) \<and>
   pings env_cancelled = [ping_down] @ ping_cancelled # [] \<and> list_all failing [ping_down] \<and>
   parent_done_select ping_cancelled \<and>
   (\<exists>st. Run env_cancelled cfg_single = Some (None, st) \<and> GoPoller \<notin> set (events st))"
proof -
  let ?pre = "[Log (StartingServer '':3000''), GoServer,
         Ping ''runner'', Log (CannotPing (Failure ''connection refused'')), Sleep Second,
         Ping ''runner'', Log PingedOk]"
  let ?post = "[Log (Polling 0), Poll 0, SetScheduledExit, Cancel, Wait,
         Log ShutdownScheduled, Cancel]"
  let ?st = "\<lparr>events = ?pre @ GoPoller # ?post,
       ctx_cancelled = True, isScheduledExit = True,
       grp = \<lparr>g_cancel = False, g_err = Some Canceled\<rparr>\<rparr>"
  have run: "Run env_poll_ok cfg_single = Some (None, ?st)"
    by (simp add: Run_def Run_body_def start_server_def concurrent_def poller_task_def
        task_done_def wait_def shutdown_def state_defs env_poll_ok_def cfg_single_def
        ping_ok_def ping_down_def)
  have port: "Server_Port cfg_single \<noteq> ''false''" and name: "Runner_Name cfg_single = ''runner''"
    and sp: "Server_Port cfg_single = '':3000''"
    by (simp_all add: cfg_single_def)
  have ev: "events ?st = ?pre @ GoPoller # ?post"
    by simp
  note th = C2_poller_after_loop_server_before [of env_poll_ok cfg_single]
  from th run port have 1: "\<exists>tl. events ?st =
      [Log (StartingServer (Server_Port cfg_single)), GoServer,
       Ping (Runner_Name cfg_single)] @ tl \<and> GoServer \<notin> set tl"
    by blast
  from th run ev have 2: "list_all (\<lambda>e. \<not> loop_event e) ?post"
    by blast
  from th run ev have 3: "\<exists>pre ob rest. pings env_poll_ok = pre @ ob # rest \<and>
      list_all failing pre \<and>
      \<not> parent_done_select ob \<and> (parent_done_err ob \<or> ping_result ob = None) \<and>
      ?pre = start_events cfg_single @ retry_events (Runner_Name cfg_single) pre @
        Ping (Runner_Name cfg_single) # (if parent_done_err ob then [] else [Log PingedOk])"
    by blast
  from 1 have tl: "\<exists>tl. events ?st =
      [Log (StartingServer '':3000''), GoServer, Ping ''runner''] @ tl \<and> GoServer \<notin> set tl"
    by (simp only: name sp)
  from 3 have dec: "\<exists>pre ob rest. pings env_poll_ok = pre @ ob # rest \<and>
      list_all failing pre \<and>
      \<not> parent_done_select ob \<and> (parent_done_err ob \<or> ping_result ob = None) \<and>
      ?pre = start_events cfg_single @ retry_events ''runner'' pre @
        Ping ''runner'' # (if parent_done_err ob then [] else [Log PingedOk])"
    by (simp only: name)
  have 4: "pings env_cancelled = [ping_down] @ ping_cancelled # []"
    by (simp add: env_cancelled_def)
  have 5: "list_all failing [ping_down]"
    by (simp add: failing_def ping_down_def)
  have 6: "parent_done_select ping_cancelled"
    by (simp add: ping_cancelled_def)
  from C2_poller_after_loop_server_before [of env_cancelled cfg_single] 4 5 6
  have 7: "\<exists>st. Run env_cancelled cfg_single = Some (None, st) \<and> GoPoller \<notin> set (events st)"
    by blast
  from port run ev tl 2 dec 4 5 6 7 show ?thesis
    by blast
qed

text \<open>
  C2 as stated fails: with the server enabled the server task is started (line 113)
  before the first ping of the loop, here two iterations before the loop ends.
\<close>

theorem C2_counterexample:
  "Run env_poll_ok cfg_single =
     Some (None,
       \<lparr>events =
          [Log (StartingServer '':3000''), GoServer,
           Ping ''runner'', Log (CannotPing (Failure ''connection refused'')), Sleep Second,
           Ping ''runner'', Log PingedOk, GoPoller,
           Log (Polling 0), Poll 0, SetScheduledExit, Cancel, Wait,
           Log ShutdownScheduled, Cancel],
        ctx_cancelled = True, isScheduledExit = True,
        grp = \<lparr>g_cancel = False, g_err = Some Canceled\<rparr>\<rparr>) \<and>
   map_option (before_first_ping GoServer \<circ> events \<circ> snd) (Run env_poll_ok cfg_single) =
     Some True"
  by (simp add: Run_def Run_body_def start_server_def concurrent_def poller_task_def
      task_done_def wait_def shutdown_def state_defs env_poll_ok_def cfg_single_def
      ping_ok_def ping_down_def)

text \<open>
  C6, as the code has it. If, after iterations in which the ping failed and no
  cancellation was seen, the parent context is done when the \<open>select\<close> of line 125 runs,
  then \<open>Run\<close> returns \<open>nil\<close>, the poller task is never started and \<open>g.Wait()\<close> is never
  called. When the server is enabled the server task has already been started, before
  the first ping of the loop: the events of \<open>Run\<close> are the start of the server task, the
  failing iterations, the last ping and the deferred call of the cancel function. When
  the server is disabled no server task is started.
\<close>

theorem C6_cancelled_during_ping_loop:
  assumes "list_all failing pre" and "parent_done_select ob" and "pings env = pre @ ob # rest"
  shows "\<exists>st. Run env cfg = Some (None, st) \<and>
           GoPoller \<notin> set (events st) \<and> Wait \<notin> set (events st) \<and>
           (GoServer \<in> set (events st) \<longleftrightarrow> Server_Port cfg \<noteq> ''false'') \<and>
           (Server_Port cfg \<noteq> ''false'' \<longrightarrow>
              before_first_ping GoServer (events st) \<and>
              events st =
                [Log (StartingServer (Server_Port cfg)), GoServer] @
                retry_events (Runner_Name cfg) pre @ [Ping (Runner_Name cfg), Cancel]) \<and>
           (Server_Port cfg = ''false'' \<longrightarrow>
              events st =
                [Log ServerDisabled] @
                retry_events (Runner_Name cfg) pre @ [Ping (Runner_Name cfg), Cancel])"
proof -
  let ?st = "init_state\<lparr>events := start_events cfg @ retry_events (Runner_Name cfg) pre @
                    [Ping (Runner_Name cfg), Cancel],
                  ctx_cancelled := True\<rparr>"
  note run = Run_Return_nil [OF assms, of cfg]
  moreover from loop_event_set [OF retry_events_loop, of "Runner_Name cfg" pre]
    start_events_set [of cfg]
  have "GoPoller \<notin> set (events ?st) \<and> Wait \<notin> set (events ?st) \<and>
      (GoServer \<in> set (events ?st) \<longleftrightarrow> Server_Port cfg \<noteq> ''false'')"
    by simp
  moreover have "Server_Port cfg \<noteq> ''false'' \<longrightarrow>
      before_first_ping GoServer (events ?st) \<and>
      events ?st =
        [Log (StartingServer (Server_Port cfg)), GoServer] @
        retry_events (Runner_Name cfg) pre @ [Ping (Runner_Name cfg), Cancel]"
    by (simp add: start_events_def)
  moreover have "Server_Port cfg = ''false'' \<longrightarrow>
      events ?st =
        [Log ServerDisabled] @
        retry_events (Runner_Name cfg) pre @ [Ping (Runner_Name cfg), Cancel]"
    by (simp add: start_events_def)
  ultimately show ?thesis
    by blast
qed

theorem C6_cancelled_during_ping_loop_witness:
  "list_all failing [ping_down] \<and> parent_done_select ping_cancelled \<and>
   pings env_cancelled = [ping_down] @ ping_cancelled # [] \<and>
   (\<exists>st. Run env_cancelled cfg_no_server = Some (None, st) \<and>
      GoPoller \<notin> set (events st) \<and> Wait \<notin> set (events st) \<and> GoServer \<notin> set (events st)) \<and>
   Server_Port cfg_single \<noteq> ''false'' \<and>
   (\<exists>st. Run env_cancelled cfg_single = Some (None, st) \<and>
      GoPoller \<notin> set (events st) \<and> Wait \<notin> set (events st) \<and>
      before_first_ping GoServer (events st) \<and>
      events st =
        [Log (StartingServer '':3000''), GoServer,
         Ping ''runner'', Log (CannotPing (Failure ''connection refused'')), Sleep Second,
         Ping ''runner'', Cancel])"
proof -
  have 1: "list_all failing [ping_down]"
    by (simp add: failing_def ping_down_def)
  have 2: "parent_done_select ping_cancelled"
    by (simp add: ping_cancelled_def)
  have 3: "pings env_cancelled = [ping_down] @ ping_cancelled # []"
    by (simp add: env_cancelled_def)
  have 4: "Server_Port cfg_no_server = ''false''"
    by (simp add: cfg_no_server_def)
  have 5: "Server_Port cfg_single \<noteq> ''false''"
    by (simp add: cfg_single_def)
  from C6_cancelled_during_ping_loop [OF 1 2 3, of cfg_no_server] 4
  have A: "\<exists>st. Run env_cancelled cfg_no_server = Some (None, st) \<and>
      GoPoller \<notin> set (events st) \<and> Wait \<notin> set (events st) \<and> GoServer \<notin> set (events st)"
    by auto
  from C6_cancelled_during_ping_loop [OF 1 2 3, of cfg_single] 5
  have "\<exists>st. Run env_cancelled cfg_single = Some (None, st) \<and>
      GoPoller \<notin> set (events st) \<and> Wait \<notin> set (events st) \<and>
      before_first_ping GoServer (events st) \<and>
      events st =
        [Log (StartingServer (Server_Port cfg_single)), GoServer] @
        retry_events (Runner_Name cfg_single) [ping_down] @
        [Ping (Runner_Name cfg_single), Cancel]"
    by blast
  then have B: "\<exists>st. Run env_cancelled cfg_single = Some (None, st) \<and>
      GoPoller \<notin> set (events st) \<and> Wait \<notin> set (events st) \<and>
      before_first_ping GoServer (events st) \<and>
      events st =
        [Log (StartingServer '':3000''), GoServer,
         Ping ''runner'', Log (CannotPing (Failure ''connection refused'')), Sleep Second,
         Ping ''runner'', Cancel]"
    by (simp add: cfg_single_def ping_down_def)
  from 1 2 3 5 A B show ?thesis
    by blast
qed

text \<open>
  C6 as stated fails: with the server enabled the server task is started before the
  loop, so it has been started when \<open>Run\<close> returns \<open>nil\<close> on the cancellation.
\<close>

theorem C6_counterexample:
  "Run env_cancelled cfg_single =
     Some (None,
       \<lparr>events =
          [Log (StartingServer '':3000''), GoServer,
           Ping ''runner'', Log (CannotPing (Failure ''connection refused'')), Sleep Second,
           Ping ''runner'', Cancel],
        ctx_cancelled = True, isScheduledExit = False,
        grp = \<lparr>g_cancel = False, g_err = None\<rparr>\<rparr>) \<and>
   map_option (before_first_ping GoServer \<circ> events \<circ> snd) (Run env_cancelled cfg_single) =
     Some True"
  by (simp add: Run_def Run_body_def start_server_def state_defs env_cancelled_def
      cfg_single_def ping_down_def ping_cancelled_def)

text \<open>
  C10, as the code has it. After iterations in which the ping failed and no
  cancellation was seen:
  if the parent context is done when the \<open>select\<close> of line 125 runs, \<open>Run\<close> returns \<open>nil\<close>
  at once, without starting the poller task and without calling \<open>g.Wait()\<close>; the server
  task, when enabled, has been started, and \<open>Run\<close> returns the same whether or not that
  task ever returns.
  If the parent context is not done at the \<open>select\<close> but is done when \<open>ctx.Err()\<close> is read
  at line 130, the loop is left by \<open>break\<close>: \<open>Run\<close> starts the poller task and calls
  \<open>g.Wait()\<close>, and it returns exactly when \<open>poller.Poll\<close> returns and, with the server
  enabled, the server task returns.
\<close>

theorem C10_cancellation_seen_in_ping_loop:
  assumes pre: "list_all failing pre" and pings: "pings env = pre @ ob # rest"
  shows "(parent_done_select ob \<longrightarrow>
            (\<exists>st. Run env cfg = Some (None, st) \<and>
               Wait \<notin> set (events st) \<and> GoPoller \<notin> set (events st) \<and>
               (Server_Port cfg \<noteq> ''false'' \<longrightarrow> before_first_ping GoServer (events st)) \<and>
               Run (env\<lparr>serve_result := None\<rparr>) cfg = Some (None, st))) \<and>
         (\<not> parent_done_select ob \<and> parent_done_err ob \<longrightarrow>
            ((\<exists>r st. Run env cfg = Some (r, st)) \<longleftrightarrow>
               (\<exists>pe. poll_result env = Some pe) \<and>
               (Server_Port cfg \<noteq> ''false'' \<longrightarrow> (\<exists>sr. serve_result env = Some sr))) \<and>
            (\<forall>r st. Run env cfg = Some (r, st) \<longrightarrow>
               GoPoller \<in> set (events st) \<and> Wait \<in> set (events st)))"
proof (intro conjI impI)
  assume sel: "parent_done_select ob"
  let ?st = "init_state\<lparr>events := start_events cfg @ retry_events (Runner_Name cfg) pre @
                    [Ping (Runner_Name cfg), Cancel],
                  ctx_cancelled := True\<rparr>"
  have run: "Run env cfg = Some (None, ?st)"
    by (rule Run_Return_nil [OF pre sel pings])
  have "pings (env\<lparr>serve_result := None\<rparr>) = pre @ ob # rest"
    using pings by simp
  then have run': "Run (env\<lparr>serve_result := None\<rparr>) cfg = Some (None, ?st)"
    by (rule Run_Return_nil [OF pre sel])
  from loop_event_set [OF retry_events_loop, of "Runner_Name cfg" pre] start_events_set [of cfg]
  have "Wait \<notin> set (events ?st) \<and> GoPoller \<notin> set (events ?st)"
    by simp
  moreover have "Server_Port cfg \<noteq> ''false'' \<longrightarrow> before_first_ping GoServer (events ?st)"
    by (simp add: start_events_def)
  ultimately show "\<exists>st. Run env cfg = Some (None, st) \<and>
       Wait \<notin> set (events st) \<and> GoPoller \<notin> set (events st) \<and>
       (Server_Port cfg \<noteq> ''false'' \<longrightarrow> before_first_ping GoServer (events st)) \<and>
       Run (env\<lparr>serve_result := None\<rparr>) cfg = Some (None, st)"
    using run run' by blast
next
  assume late: "\<not> parent_done_select ob \<and> parent_done_err ob"
  let ?st1 = "init_state\<lparr>events := start_events cfg @ retry_events (Runner_Name cfg) pre @
                      [Ping (Runner_Name cfg), GoPoller]\<rparr>"
  from late have body: "Run_body env cfg =
       (case poll_result env of
          None \<Rightarrow> None
        | Some pe \<Rightarrow>
            if Server_Port cfg \<noteq> ''false'' then
              (case serve_result env of
                 None \<Rightarrow> None
               | Some sr \<Rightarrow> Some (shutdown sr (joined cfg pe sr ?st1)))
            else Some (shutdown None (joined cfg pe None ?st1)))"
    by (intro Run_Break_err [OF pre _ _ pings]) simp_all
  have returns: "(\<exists>r st. Run env cfg = Some (r, st)) \<longleftrightarrow> (\<exists>r st. Run_body env cfg = Some (r, st))"
    by (auto simp: Run_eq)
  show "(\<exists>r st. Run env cfg = Some (r, st)) \<longleftrightarrow>
      (\<exists>pe. poll_result env = Some pe) \<and>
      (Server_Port cfg \<noteq> ''false'' \<longrightarrow> (\<exists>sr. serve_result env = Some sr))"
    unfolding returns body
    by (cases "poll_result env"; cases "serve_result env"; cases "Server_Port cfg = ''false''")
      (simp_all add: prod_eq_iff)
  show "\<forall>r st. Run env cfg = Some (r, st) \<longrightarrow> GoPoller \<in> set (events st) \<and> Wait \<in> set (events st)"
  proof (intro allI impI)
    fix r st
    assume "Run env cfg = Some (r, st)"
    then obtain st0 where st0: "Run_body env cfg = Some (r, st0)"
      and st: "st = cancelBySingleStageMode st0"
      by (auto simp: Run_eq)
    from st0 body obtain pe sr where "st0 = snd (shutdown sr (joined cfg pe sr ?st1))"
      by (cases "poll_result env"; cases "serve_result env"; cases "Server_Port cfg = ''false''")
        (auto simp: prod_eq_iff)
    then have "events st0 = events ?st1 @ poller_events cfg pe @ Wait #
       (if sr = Some Canceled \<and> isScheduledExit (joined cfg pe sr ?st1) then [Log ShutdownScheduled]
        else case sr of None \<Rightarrow> [] | Some e \<Rightarrow> [Log (ShutdownError e)])"
      by (simp only: events_shutdown_joined)
    with st show "GoPoller \<in> set (events st) \<and> Wait \<in> set (events st)"
      by (simp add: state_defs)
  qed
qed

theorem C10_cancellation_seen_in_ping_loop_witness:
  "list_all failing [ping_down] \<and> pings env_cancelled = [ping_down] @ ping_cancelled # [] \<and>
   parent_done_select ping_cancelled \<and> Server_Port cfg_single \<noteq> ''false'' \<and>
   (\<exists>st. Run env_cancelled cfg_single = Some (None, st) \<and>
      Wait \<notin> set (events st) \<and> GoPoller \<notin> set (events st) \<and>
      before_first_ping GoServer (events st) \<and>
      Run (env_cancelled\<lparr>serve_result := None\<rparr>) cfg_single = Some (None, st)) \<and>
   list_all failing [] \<and> pings env_cancelled_late = [] @ ping_cancelled_late # [] \<and>
   \<not> parent_done_select ping_cancelled_late \<and> parent_done_err ping_cancelled_late \<and>
   (\<exists>r st. Run env_cancelled_late cfg_single = Some (r, st) \<and>
      GoPoller \<in> set (events st) \<and> Wait \<in> set (events st))"
proof -
  have 1: "list_all failing [ping_down]"
    by (simp add: failing_def ping_down_def)
  have 2: "pings env_cancelled = [ping_down] @ ping_cancelled # []"
    by (simp add: env_cancelled_def)
  have 3: "parent_done_select ping_cancelled"
    by (simp add: ping_cancelled_def)
  have 4: "Server_Port cfg_single \<noteq> ''false''"
    by (simp add: cfg_single_def)
  from C10_cancellation_seen_in_ping_loop [OF 1 2, of cfg_single] 3 4
  have A: "\<exists>st. Run env_cancelled cfg_single = Some (None, st) \<and>
      Wait \<notin> set (events st) \<and> GoPoller \<notin> set (events st) \<and>
      before_first_ping GoServer (events st) \<and>
      Run (env_cancelled\<lparr>serve_result := None\<rparr>) cfg_single = Some (None, st)"
    by simp
  have 5: "list_all failing []"
    by simp
  have 6: "pings env_cancelled_late = [] @ ping_cancelled_late # []"
    by (simp add: env_cancelled_late_def)
  have 7: "\<not> parent_done_select ping_cancelled_late \<and> parent_done_err ping_cancelled_late"
    by (simp add: ping_cancelled_late_def)
  have 8: "(\<exists>pe. poll_result env_cancelled_late = Some pe) \<and>
      (\<exists>sr. serve_result env_cancelled_late = Some sr)"
    by (simp add: env_cancelled_late_def)
  from C10_cancellation_seen_in_ping_loop [OF 5 6, of cfg_single] 7 8
  have B: "\<exists>r st. Run env_cancelled_late cfg_single = Some (r, st) \<and>
      GoPoller \<in> set (events st) \<and> Wait \<in> set (events st)"
    by blast
  from 1 2 3 4 A 5 6 7 B show ?thesis
    by blast
qed

text \<open>
  C10 as stated fails: the parent context becomes done between the \<open>select\<close> of line 125
  and the \<open>ctx.Err()\<close> of line 130. The loop sees the cancellation at line 130 and
  breaks; \<open>Run\<close> starts the poller task, waits for the group and returns the server
  task's \<open>context.Canceled\<close>, not \<open>nil\<close>.
\<close>

theorem C10_counterexample:
  "Run env_cancelled_late cfg_continuous =
     Some (Some Canceled,
       \<lparr>events =
          [Log (StartingServer '':3000''), GoServer, Ping ''runner'', GoPoller,
           Log (Polling 2), Poll 2, Wait, Log (ShutdownError Canceled), Cancel],
        ctx_cancelled = True, isScheduledExit = False,
        grp = \<lparr>g_cancel = False, g_err = Some Canceled\<rparr>\<rparr>) \<and>
   parent_done_err (hd (pings env_cancelled_late)) \<and>
   map_option fst (Run env_cancelled_late cfg_continuous) \<noteq> Some None"
  by (simp add: Run_def Run_body_def start_server_def concurrent_def poller_task_def
      task_done_def wait_def shutdown_def state_defs env_cancelled_late_def cfg_continuous_def
      ping_cancelled_late_def)

text \<open>
  C7, as the code has it. In every execution of \<open>Run\<close> that returns from \<open>g.Wait()\<close>, the
  error the join has kept is what the server task returned (\<open>nil\<close> when the server is
  disabled): the poller task returns \<open>nil\<close>, so there is no later error to drop, and the
  order in which the two tasks return changes nothing of what \<open>Run\<close> returns and does.
  The join calls the cancel function of \<open>ctx\<close> for no task's error: between the start of
  the poller task and the return of \<open>g.Wait()\<close> there are only the poller task's own
  events, whatever the server task returned, and in continuous mode the only call of the
  cancel function is the deferred one when \<open>Run\<close> returns.
  The group of \<open>Run\<close> is the zero value of \<open>errgroup.Group\<close>: when two tasks return \<open>r1\<close>
  and then \<open>r2\<close>, \<open>g.Wait()\<close> returns the first of the two that is not \<open>nil\<close>, the later
  error is dropped, and the context is cancelled after the join exactly if it was before.
\<close>

theorem C7_join_keeps_first_error_without_cancel:
  "(\<forall>r fin. Run env cfg = Some (r, fin) \<and> Wait \<in> set (events fin) \<longrightarrow>
      (\<exists>pe sr before lg.
         poll_result env = Some pe \<and>
         (if Server_Port cfg \<noteq> ''false'' then serve_result env = Some sr else sr = None) \<and>
         g_err (grp fin) = sr \<and>
         r = (if sr = Some Canceled \<and> isScheduledExit fin then None else sr) \<and>
         events fin = before @ GoPoller # poller_events cfg pe @ Wait # lg @ [Cancel] \<and>
         Cancel \<notin> set before \<and> Cancel \<notin> set lg \<and>
         (1 \<le> Runner_Capacity cfg \<longrightarrow> Cancel \<notin> set (poller_events cfg pe)))) \<and>
   Run (env\<lparr>server_first := b\<rparr>) cfg = Run env cfg \<and>
   (grp st = grp init_state \<longrightarrow>
      concurrent env cfg st =
        (case poll_result env of
           None \<Rightarrow> None
         | Some pe \<Rightarrow>
             if Server_Port cfg \<noteq> ''false'' then
               (case serve_result env of
                  None \<Rightarrow> None
                | Some sr \<Rightarrow> Some (sr, joined cfg pe sr st))
             else Some (None, joined cfg pe None st)) \<and>
      fst (wait (task_done r2 (task_done r1 st))) = (case r1 of Some e \<Rightarrow> Some e | None \<Rightarrow> r2) \<and>
      task_done r1 st = st\<lparr>grp := \<lparr>g_cancel = False, g_err = r1\<rparr>\<rparr> \<and>
      events (snd (wait (task_done r2 (task_done r1 st)))) = events st @ [Wait] \<and>
      ctx_cancelled (snd (wait (task_done r2 (task_done r1 st)))) = ctx_cancelled st)"
proof -
  have returned: "\<forall>r fin. Run env cfg = Some (r, fin) \<and> Wait \<in> set (events fin) \<longrightarrow>
      (\<exists>pe sr before lg.
         poll_result env = Some pe \<and>
         (if Server_Port cfg \<noteq> ''false'' then serve_result env = Some sr else sr = None) \<and>
         g_err (grp fin) = sr \<and>
         r = (if sr = Some Canceled \<and> isScheduledExit fin then None else sr) \<and>
         events fin = before @ GoPoller # poller_events cfg pe @ Wait # lg @ [Cancel] \<and>
         Cancel \<notin> set before \<and> Cancel \<notin> set lg \<and>
         (1 \<le> Runner_Capacity cfg \<longrightarrow> Cancel \<notin> set (poller_events cfg pe)))"
  proof (intro allI impI)
    fix r fin
    assume "Run env cfg = Some (r, fin) \<and> Wait \<in> set (events fin)"
    then have run: "Run env cfg = Some (r, fin)" and waited: "Wait \<in> set (events fin)"
      by simp_all
    from run show "\<exists>pe sr before lg.
         poll_result env = Some pe \<and>
         (if Server_Port cfg \<noteq> ''false'' then serve_result env = Some sr else sr = None) \<and>
         g_err (grp fin) = sr \<and>
         r = (if sr = Some Canceled \<and> isScheduledExit fin then None else sr) \<and>
         events fin = before @ GoPoller # poller_events cfg pe @ Wait # lg @ [Cancel] \<and>
         Cancel \<notin> set before \<and> Cancel \<notin> set lg \<and>
         (1 \<le> Runner_Capacity cfg \<longrightarrow> Cancel \<notin> set (poller_events cfg pe))"
    proof (cases rule: Run_cases)
      case (cancelled evs)
      with waited loop_event_set [OF cancelled(3)] start_events_set [of cfg] show ?thesis
        by simp
    next
      case (joined evs pe sr)
      let ?before = "start_events cfg @ Ping (Runner_Name cfg) # evs"
      let ?lg = "if sr = Some Canceled \<and> Runner_Capacity cfg < 1 \<and> pe = None
          then [Log ShutdownScheduled]
          else case sr of None \<Rightarrow> [] | Some e \<Rightarrow> [Log (ShutdownError e)]"
      from joined(5) have ev: "events fin =
          ?before @ GoPoller # poller_events cfg pe @ Wait # ?lg @ [Cancel]"
        by simp
      from loop_event_set [OF joined(3)] start_events_set [of cfg]
      have cb: "Cancel \<notin> set ?before"
        by simp
      have cl: "Cancel \<notin> set ?lg"
        by (cases sr) simp_all
      have cp: "1 \<le> Runner_Capacity cfg \<longrightarrow> Cancel \<notin> set (poller_events cfg pe)"
        by (simp add: poller_events_def)
      from joined(4,6)
      have r: "r = (if sr = Some Canceled \<and> isScheduledExit fin then None else sr)"
        by simp
      from joined(1,2,7) r ev cb cl cp show ?thesis
        by blast
    qed
  qed
  have order: "Run (env\<lparr>server_first := b\<rparr>) cfg = Run env cfg"
  proof (cases "gate cfg (pings env) (init_state\<lparr>events := start_events cfg\<rparr>)")
    case None
    then show ?thesis
      by (simp add: Run_def Run_body_def start_server_eq)
  next
    case (Some res)
    obtain x st1 where res: "res = (x, st1)"
      by (cases res)
    show ?thesis
    proof (cases x)
      case Return_nil
      with Some res show ?thesis
        by (simp add: Run_def Run_body_def start_server_eq)
    next
      case Break
      with Some res
      have g: "gate cfg (pings env) (init_state\<lparr>events := start_events cfg\<rparr>) = Some (Break, st1)"
        by simp
      then have g': "gate cfg (pings (env\<lparr>server_first := b\<rparr>))
          (init_state\<lparr>events := start_events cfg\<rparr>) = Some (Break, st1)"
        by simp
      show ?thesis
        by (simp add: Run_def Run_body_Break [OF g] Run_body_Break [OF g']
            split: option.splits)
    qed
  qed
  have group: "grp st = grp init_state \<longrightarrow>
      concurrent env cfg st =
        (case poll_result env of
           None \<Rightarrow> None
         | Some pe \<Rightarrow>
             if Server_Port cfg \<noteq> ''false'' then
               (case serve_result env of
                  None \<Rightarrow> None
                | Some sr \<Rightarrow> Some (sr, joined cfg pe sr st))
             else Some (None, joined cfg pe None st)) \<and>
      fst (wait (task_done r2 (task_done r1 st))) = (case r1 of Some e \<Rightarrow> Some e | None \<Rightarrow> r2) \<and>
      task_done r1 st = st\<lparr>grp := \<lparr>g_cancel = False, g_err = r1\<rparr>\<rparr> \<and>
      events (snd (wait (task_done r2 (task_done r1 st)))) = events st @ [Wait] \<and>
      ctx_cancelled (snd (wait (task_done r2 (task_done r1 st)))) = ctx_cancelled st"
  proof
    assume "grp st = grp init_state"
    then have z: "grp st = \<lparr>g_cancel = False, g_err = None\<rparr>"
      by (simp add: init_state_def)
    note c = concurrent_zero_group [OF z, of env cfg]
    have 1: "task_done r1 st = st\<lparr>grp := \<lparr>g_cancel = False, g_err = r1\<rparr>\<rparr>"
      by (rule task_done_zero_group [OF z])
    have "fst (wait (task_done r2 (task_done r1 st))) =
        (case r1 of Some e \<Rightarrow> Some e | None \<Rightarrow> r2) \<and>
      events (snd (wait (task_done r2 (task_done r1 st)))) = events st @ [Wait] \<and>
      ctx_cancelled (snd (wait (task_done r2 (task_done r1 st)))) = ctx_cancelled st"
    proof (cases r1)
      case None
      with z have "task_done r2 (task_done r1 st) = st\<lparr>grp := \<lparr>g_cancel = False, g_err = r2\<rparr>\<rparr>"
        by (simp add: task_done_nil task_done_zero_group)
      with None show ?thesis
        by (simp add: wait_no_cancel emit_def)
    next
      case (Some e)
      with 1 have "task_done r2 (task_done r1 st) =
          st\<lparr>grp := \<lparr>g_cancel = False, g_err = Some e\<rparr>\<rparr>"
        by (cases r2) (simp_all add: task_done_def)
      with Some show ?thesis
        by (simp add: wait_no_cancel emit_def)
    qed
    with c 1 show "concurrent env cfg st =
        (case poll_result env of
           None \<Rightarrow> None
         | Some pe \<Rightarrow>
             if Server_Port cfg \<noteq> ''false'' then
               (case serve_result env of
                  None \<Rightarrow> None
                | Some sr \<Rightarrow> Some (sr, joined cfg pe sr st))
             else Some (None, joined cfg pe None st)) \<and>
      fst (wait (task_done r2 (task_done r1 st))) = (case r1 of Some e \<Rightarrow> Some e | None \<Rightarrow> r2) \<and>
      task_done r1 st = st\<lparr>grp := \<lparr>g_cancel = False, g_err = r1\<rparr>\<rparr> \<and>
      events (snd (wait (task_done r2 (task_done r1 st)))) = events st @ [Wait] \<and>
      ctx_cancelled (snd (wait (task_done r2 (task_done r1 st)))) = ctx_cancelled st"
      by blast
  qed
  from returned order group show ?thesis
    by blast
qed

theorem C7_join_keeps_first_error_without_cancel_witness:
  "(\<exists>fin. Run env_server_error cfg_continuous =
        Some (Some (Failure ''address already in use''), fin) \<and>
      Wait \<in> set (events fin) \<and>
      g_err (grp fin) = Some (Failure ''address already in use'') \<and>
      events fin =
        [Log (StartingServer '':3000''), GoServer, Ping ''runner'', Log PingedOk] @ GoPoller #
        [Log (Polling 2), Poll 2] @ Wait #
        [Log (ShutdownError (Failure ''address already in use''))] @ [Cancel]) \<and>
   serve_result env_server_error = Some (Some (Failure ''address already in use'')) \<and>
   Run (env_server_error\<lparr>server_first := False\<rparr>) cfg_continuous =
     Run env_server_error cfg_continuous \<and>
   grp (start_server cfg_continuous init_state) = grp init_state \<and>
   fst (wait (task_done (Some Canceled)
     (task_done (Some (Failure ''address already in use''))
       (start_server cfg_continuous init_state)))) = Some (Failure ''address already in use'') \<and>
   \<not> ctx_cancelled (snd (wait (task_done (Some Canceled)
     (task_done (Some (Failure ''address already in use''))
       (start_server cfg_continuous init_state)))))"
proof -
  let ?e = "Failure ''address already in use''"
  let ?fin = "\<lparr>events =
         [Log (StartingServer '':3000''), GoServer, Ping ''runner'', Log PingedOk] @ GoPoller #
         [Log (Polling 2), Poll 2] @ Wait # [Log (ShutdownError ?e)] @ [Cancel],
       ctx_cancelled = True, isScheduledExit = False,
       grp = \<lparr>g_cancel = False, g_err = Some ?e\<rparr>\<rparr>"
  let ?st = "start_server cfg_continuous init_state"
  have run: "Run env_server_error cfg_continuous = Some (Some ?e, ?fin)"
    by (simp add: Run_def Run_body_def start_server_def concurrent_def poller_task_def
        task_done_def wait_def shutdown_def state_defs env_server_error_def cfg_continuous_def
        ping_ok_def)
  have waited: "Wait \<in> set (events ?fin)"
    by simp
  have serve: "serve_result env_server_error = Some (Some ?e)"
    by (simp add: env_server_error_def)
  have port: "Server_Port cfg_continuous \<noteq> ''false''"
    by (simp add: cfg_continuous_def)
  have zero: "grp ?st = grp init_state"
    by (simp add: start_server_def state_defs)
  have c: "\<not> ctx_cancelled ?st"
    by (simp add: start_server_def state_defs)
  note th = C7_join_keeps_first_error_without_cancel
    [where env = env_server_error and cfg = cfg_continuous and b = False and st = ?st
      and ?r1.0 = "Some ?e" and ?r2.0 = "Some Canceled"]
  from th run waited port serve have kept: "g_err (grp ?fin) = Some ?e"
    by auto
  from th have order: "Run (env_server_error\<lparr>server_first := False\<rparr>) cfg_continuous =
      Run env_server_error cfg_continuous"
    by blast
  from th zero
  have "fst (wait (task_done (Some Canceled) (task_done (Some ?e) ?st))) =
      (case Some ?e of Some e \<Rightarrow> Some e | None \<Rightarrow> Some Canceled)"
    and "ctx_cancelled (snd (wait (task_done (Some Canceled) (task_done (Some ?e) ?st)))) =
      ctx_cancelled ?st"
    by blast+
  with c have grp: "fst (wait (task_done (Some Canceled) (task_done (Some ?e) ?st))) = Some ?e"
    "\<not> ctx_cancelled (snd (wait (task_done (Some Canceled) (task_done (Some ?e) ?st))))"
    by simp_all
  have "\<exists>fin. Run env_server_error cfg_continuous = Some (Some ?e, fin) \<and>
      Wait \<in> set (events fin) \<and> g_err (grp fin) = Some ?e \<and>
      events fin =
        [Log (StartingServer '':3000''), GoServer, Ping ''runner'', Log PingedOk] @ GoPoller #
        [Log (Polling 2), Poll 2] @ Wait # [Log (ShutdownError ?e)] @ [Cancel]"
    using run waited kept by (intro exI [of _ ?fin]) simp
  with serve order zero grp show ?thesis
    by blast
qed

text \<open>
  C7 as stated fails: the server task returns an error while the poller task runs.
  Nothing calls the cancel function of \<open>ctx\<close>: the state after the server task's return
  has no \<open>Cancel\<close> event and \<open>ctx\<close> is not cancelled. With \<open>poller.Poll\<close> never returning
  of itself, \<open>Run\<close> does not return; with \<open>poller.Poll\<close> returning later, \<open>Run\<close> returns
  the server's error and the only call of the cancel function is the deferred one,
  after \<open>g.Wait()\<close>.
\<close>

theorem C7_counterexample:
  "task_done (Some (Failure ''address already in use''))
     (emit GoPoller (start_server cfg_continuous init_state)) =
     \<lparr>events = [Log (StartingServer '':3000''), GoServer, GoPoller],
      ctx_cancelled = False, isScheduledExit = False,
      grp = \<lparr>g_cancel = False, g_err = Some (Failure ''address already in use'')\<rparr>\<rparr> \<and>
   serve_result env_server_fails = Some (Some (Failure ''address already in use'')) \<and>
   Run env_server_fails cfg_continuous = None \<and>
   Run env_server_error cfg_continuous =
     Some (Some (Failure ''address already in use''),
       \<lparr>events =
          [Log (StartingServer '':3000''), GoServer, Ping ''runner'', Log PingedOk, GoPoller,
           Log (Polling 2), Poll 2, Wait,
           Log (ShutdownError (Failure ''address already in use'')), Cancel],
        ctx_cancelled = True, isScheduledExit = False,
        grp = \<lparr>g_cancel = False, g_err = Some (Failure ''address already in use'')\<rparr>\<rparr>)"
  by (simp add: Run_def Run_body_def start_server_def concurrent_def poller_task_def
      task_done_def wait_def shutdown_def state_defs env_server_fails_def env_server_error_def
      cfg_continuous_def ping_ok_def)

end
